theory Spec2Isabelle
  imports Main
begin

section \<open>Strings as the server uses them\<close>

text \<open>
  The server in \<^verbatim>\<open>src/index.js\<close> is one Express handler around one shell command.
  Strings are byte lists. The JavaScript string operations the handler calls are written
  out here: \<^verbatim>\<open>String.prototype.includes\<close>, \<^verbatim>\<open>toLowerCase\<close>, \<^verbatim>\<open>replace(/'/g, ...)\<close>
  and the decimal text of a number inside a template literal.
\<close>

type_synonym path = string

fun starts_with :: "string \<Rightarrow> string \<Rightarrow> bool" where
  "starts_with s [] = True"
| "starts_with [] (c # t) = False"
| "starts_with (d # s) (c # t) = (d = c \<and> starts_with s t)"

text \<open>\<^verbatim>\<open>s.includes(t)\<close>: \<open>t\<close> occurs in \<open>s\<close> as a contiguous run.\<close>

fun includes_str :: "string \<Rightarrow> string \<Rightarrow> bool" where
  "includes_str [] t = (t = [])"
| "includes_str (d # s) t = (starts_with (d # s) t \<or> includes_str s t)"

text \<open>
  \<^verbatim>\<open>toLowerCase\<close> on bytes: the letters A to Z move to a to z. Bytes from 128 on belong to
  multi-byte characters, whose lower-case forms are multi-byte again (the letters of
  the marker word are reached from no other character), so they stay as they are.
\<close>

definition lower_char :: "char \<Rightarrow> char" where
  "lower_char c =
     (case map_of (zip ''ABCDEFGHIJKLMNOPQRSTUVWXYZ'' ''abcdefghijklmnopqrstuvwxyz'') c of
        Some l \<Rightarrow> l
      | None \<Rightarrow> c)"

definition toLowerCase :: "string \<Rightarrow> string" where
  "toLowerCase s = map lower_char s"

text \<open>\<^verbatim>\<open>s.replace(/'/g, "'\\''")\<close>: every single quote becomes the four characters \<^verbatim>\<open>'\''\<close>.\<close>

definition escape_quote :: "char \<Rightarrow> string" where
  "escape_quote c = (if c = CHR 0x27 then [CHR 0x27, CHR 0x5C, CHR 0x27, CHR 0x27] else [c])"

definition escape_single_quotes :: "string \<Rightarrow> string" where
  "escape_single_quotes s = concat (map escape_quote s)"

definition digit_char :: "nat \<Rightarrow> char" where
  "digit_char d = ''0123456789'' ! d"

text \<open>The decimal text of a non-negative integer, as a template literal prints \<^verbatim>\<open>Date.now()\<close>.\<close>

function show_nat :: "nat \<Rightarrow> string" where
  "show_nat n = (if n < 10 then [digit_char n] else show_nat (n div 10) @ [digit_char (n mod 10)])"
  by pat_completeness auto
termination
  by (relation "measure id") auto

declare show_nat.simps [simp del]

fun join_with :: "string \<Rightarrow> string list \<Rightarrow> string" where
  "join_with sep [] = []"
| "join_with sep [x] = x"
| "join_with sep (x # y # ys) = x @ sep @ join_with sep (y # ys)"

text \<open>
  \<^verbatim>\<open>s.split(c)\<close>: the pieces of \<open>s\<close> between occurrences of \<open>c\<close>; \<open>n\<close> separators give
  \<open>n + 1\<close> pieces, empty ones included.
\<close>

fun split_on :: "char \<Rightarrow> string \<Rightarrow> string list" where
  "split_on c [] = [[]]"
| "split_on c (d # s) =
     (if d = c then [] # split_on c s
      else (case split_on c s of [] \<Rightarrow> [[d]] | p # ps \<Rightarrow> (d # p) # ps))"

section \<open>Node's path.join on POSIX\<close>

text \<open>
  \<^verbatim>\<open>path.join\<close> glues its non-empty arguments with a slash and normalises the result:
  empty and \<^verbatim>\<open>.\<close> segments vanish, a \<^verbatim>\<open>..\<close> segment removes the segment before it (at
  the root of an absolute path it vanishes, at the start of a relative one it stays).
  \<open>norm_step\<close> is one round of the loop of Node's \<^verbatim>\<open>normalizeString\<close>, with the
  segments of the result kept as a list.
\<close>

definition norm_step :: "bool \<Rightarrow> string list \<Rightarrow> string \<Rightarrow> string list" where
  "norm_step allowAboveRoot res seg =
     (if seg = [] \<or> seg = ''.'' then res
      else if seg = ''..'' then
        (if res \<noteq> [] \<and> last res \<noteq> ''..'' then butlast res
         else if allowAboveRoot then res @ [''..''] else res)
      else res @ [seg])"

definition normalizeString :: "string \<Rightarrow> bool \<Rightarrow> string" where
  "normalizeString p allowAboveRoot =
     join_with ''/'' (foldl (norm_step allowAboveRoot) [] (split_on CHR ''/'' p))"

definition normalize_path :: "string \<Rightarrow> string" where
  "normalize_path p =
     (if p = [] then ''.''
      else
        let isAbsolute = (hd p = CHR ''/'');
            trailingSeparator = (last p = CHR ''/'');
            q = normalizeString p (\<not> isAbsolute)
        in if q = [] then (if isAbsolute then ''/'' else if trailingSeparator then ''./'' else ''.'')
           else
             let q' = (if trailingSeparator then q @ ''/'' else q)
             in if isAbsolute then ''/'' @ q' else q')"

definition path_join :: "string \<Rightarrow> string \<Rightarrow> string" where
  "path_join a b =
     (case filter (\<lambda>arg. arg \<noteq> []) [a, b] of
        [] \<Rightarrow> ''.''
      | parts \<Rightarrow> normalize_path (join_with ''/'' parts))"

text \<open>
  \<^verbatim>\<open>path.basename\<close>: the slashes at the end are dropped, and what follows the last slash
  that is left is the result.
\<close>

definition strip_trailing_slashes :: "string \<Rightarrow> string" where
  "strip_trailing_slashes p = rev (dropWhile (\<lambda>c. c = CHR ''/'') (rev p))"

definition basename :: "string \<Rightarrow> string" where
  "basename p = last (split_on CHR ''/'' (strip_trailing_slashes p))"

section \<open>Request bodies and JSON.stringify\<close>

text \<open>
  A parsed JSON value as the handler sees it. A number carries the text JavaScript prints
  for it; an object carries its properties in enumeration order.
\<close>

datatype json =
    JNull
  | JBool bool
  | JNum string
  | JStr string
  | JArr "json list"
  | JObj "(string \<times> json) list"

definition dq :: string where
  "dq = [CHR 0x22]"

definition hex_digit :: "nat \<Rightarrow> char" where
  "hex_digit d = ''0123456789abcdef'' ! d"

text \<open>How \<^verbatim>\<open>JSON.stringify\<close> writes one character of a string.\<close>

definition quote_char :: "char \<Rightarrow> string" where
  "quote_char c =
     (let n = (of_char c :: nat) in
      if n = 8 then [CHR 0x5C, CHR ''b'']
      else if n = 9 then [CHR 0x5C, CHR ''t'']
      else if n = 10 then [CHR 0x5C, CHR ''n'']
      else if n = 12 then [CHR 0x5C, CHR ''f'']
      else if n = 13 then [CHR 0x5C, CHR ''r'']
      else if n = 34 then [CHR 0x5C, CHR 0x22]
      else if n = 92 then [CHR 0x5C, CHR 0x5C]
      else if n < 32 then [CHR 0x5C, CHR ''u'', CHR ''0'', CHR ''0'', hex_digit (n div 16), hex_digit (n mod 16)]
      else [c])"

definition quote_json :: "string \<Rightarrow> string" where
  "quote_json s = dq @ concat (map quote_char s) @ dq"

fun stringify :: "json \<Rightarrow> string" where
  "stringify JNull = ''null''"
| "stringify (JBool b) = (if b then ''true'' else ''false'')"
| "stringify (JNum t) = t"
| "stringify (JStr s) = quote_json s"
| "stringify (JArr xs) = ''['' @ join_with '','' (map stringify xs) @ '']''"
| "stringify (JObj kvs) =
     ''{'' @ join_with '','' (map (\<lambda>kv. quote_json (fst kv) @ '':'' @ stringify (snd kv)) kvs) @ ''}''"

text \<open>
  The body of a request: \<^verbatim>\<open>const { compositionId, inputProps } = req.body\<close>. A field
  that the body lacks is \<open>None\<close> (JavaScript's \<^verbatim>\<open>undefined\<close>); \<open>compositionId\<close> is a
  string when present, as the interface declares it. The fields are named
  \<open>body_compositionId\<close> and \<open>body_inputProps\<close>.
\<close>

record request =
  body_compositionId :: "string option"
  body_inputProps :: "json option"

text \<open>\<^verbatim>\<open>!compositionId\<close> holds for \<^verbatim>\<open>undefined\<close> and for the empty string.\<close>

definition truthy_str :: "string option \<Rightarrow> bool" where
  "truthy_str v = (case v of None \<Rightarrow> False | Some s \<Rightarrow> s \<noteq> [])"

text \<open>A template literal prints a string as it is and \<^verbatim>\<open>undefined\<close> by name.\<close>

definition template_str :: "string option \<Rightarrow> string" where
  "template_str v = (case v of None \<Rightarrow> ''undefined'' | Some s \<Rightarrow> s)"

definition truthy_json :: "json \<Rightarrow> bool" where
  "truthy_json v =
     (case v of JNull \<Rightarrow> False | JBool b \<Rightarrow> b | JNum t \<Rightarrow> t \<noteq> ''0'' | JStr s \<Rightarrow> s \<noteq> []
      | JArr _ \<Rightarrow> True | JObj _ \<Rightarrow> True)"

text \<open>\<^verbatim>\<open>inputProps || {}\<close>.\<close>

definition props_or_empty :: "json option \<Rightarrow> json" where
  "props_or_empty v =
     (case v of None \<Rightarrow> JObj [] | Some j \<Rightarrow> if truthy_json j then j else JObj [])"

section \<open>The world around one request\<close>

text \<open>
  Lines 16 to 25 of the source fix two directories from the place of the server file;
  they are parameters here. The entry point is joined from the project directory.
\<close>

record config =
  remotionProjectDir :: path
  outputDir :: path

definition remotionEntryPoint :: "config \<Rightarrow> path" where
  "remotionEntryPoint cfg = path_join (remotionProjectDir cfg) ''src/remotion/index.js''"

text \<open>
  What a child process leaves when it has ended: how it ended (with an exit code, or by a
  signal), the text Node read from its two channels until then, and the files on disk.
\<close>

datatype ending = Exited nat | Signalled

record proc =
  ending :: ending
  p_stdout :: string
  p_stderr :: string
  fs_after :: "path set"

datatype delivery = Delivered | FailedBeforeHeaders | FailedAfterHeaders

text \<open>
  Everything the handler does not decide: the token \<^verbatim>\<open>uuidv4()\<close> returns; the clock; the
  message of the error Node throws for an argument that holds a NUL character; what happens
  when a shell is asked to run a command in a working directory on a disk (\<open>Inl\<close> the
  message of the error when no shell could be started, \<open>Inr\<close> what the child left); the
  number of bytes \<^verbatim>\<open>exec\<close> accepts on each channel (the call of line 53 sets none, so this
  is Node's default, 1048576 since Node 12); how the transport treats a file that it
  sends; whether the file sender looks for a dot at the start of every segment of the path
  or of the file name only (\<^verbatim>\<open>send\<close> 1 under Express 5 does the first, \<^verbatim>\<open>send\<close> 0 under
  Express 4 the second; the source pins no version); and whether the operating system lets
  a file be deleted.
\<close>

record env =
  uuid :: string
  now :: nat
  arg_error :: "string \<Rightarrow> string"
  spawn :: "string \<Rightarrow> path \<Rightarrow> path set \<Rightarrow> string + proc"
  max_buffer :: nat
  transport :: delivery
  every_segment_checked :: bool
  unlink_ok :: bool

datatype response =
    JsonResponse nat "(string \<times> string) list"
  | FileResponse path string bool

text \<open>
  \<open>JsonResponse status body\<close> is \<^verbatim>\<open>res.status(status).json(body)\<close>;
  \<open>FileResponse p name complete\<close> is a download of the file at \<open>p\<close> whose headers went
  out, \<open>name\<close> being the file name of its \<^verbatim>\<open>Content-Disposition\<close> header and \<open>complete\<close>
  telling whether the whole file followed. \<open>downloads\<close> lists the calls of
  \<^verbatim>\<open>res.download\<close> with their arguments, \<open>execs\<close> the commands a shell was started with and
  their working directory, \<open>unlinks\<close> the paths whose deletion was attempted.
  The \<^verbatim>\<open>console.error\<close> and \<^verbatim>\<open>console.warn\<close> lines are kept as events.
\<close>

datatype log_event =
    WarnStderr string
  | ErrExecuting string
  | ErrStderr "string option"
  | ErrStdout "string option"
  | ErrSending path
  | ErrDeleting path
  | ErrRenderFailed string
  | ErrDeletingAfterFailure path

record world =
  fs :: "path set"
  responses :: "response list"
  execs :: "(string \<times> path) list"
  downloads :: "(path \<times> string) list"
  unlinks :: "path list"
  logged :: "log_event list"

definition start :: "path set \<Rightarrow> world" where
  "start files =
     \<lparr>fs = files, responses = [], execs = [], downloads = [], unlinks = [], logged = []\<rparr>"

definition headersSent :: "world \<Rightarrow> bool" where
  "headersSent w = (responses w \<noteq> [])"

definition log :: "log_event \<Rightarrow> world \<Rightarrow> world" where
  "log ev w = w\<lparr>logged := logged w @ [ev]\<rparr>"

definition res_json :: "nat \<Rightarrow> (string \<times> string) list \<Rightarrow> world \<Rightarrow> world" where
  "res_json status body w = w\<lparr>responses := responses w @ [JsonResponse status body]\<rparr>"

text \<open>
  The file sender behind \<^verbatim>\<open>res.download\<close>, called without a root directory, refuses
  two kinds of path before anything goes out. The first is a path with a \<^verbatim>\<open>..\<close> between
  separators, a backslash counting as a separator here. The second is a dot file: a
  segment of more than one character that begins with a dot. \<^verbatim>\<open>send\<close> 1 refuses a path with
  such a segment anywhere; \<^verbatim>\<open>send\<close> 0, called without options as here, refuses it when the
  last segment begins with a dot as well. The path is the one \<^verbatim>\<open>path.join\<close> made from the
  output directory, which \<^verbatim>\<open>path.resolve\<close> has made absolute.
\<close>

definition up_path :: "path \<Rightarrow> bool" where
  "up_path p \<longleftrightarrow>
     ''..'' \<in> set (split_on CHR ''/'' (map (\<lambda>c. if c = CHR 0x5C then CHR ''/'' else c) p))"

definition dot_file :: "string \<Rightarrow> bool" where
  "dot_file seg = (case seg of c # _ # _ \<Rightarrow> c = CHR ''.'' | _ \<Rightarrow> False)"

definition sender_refuses :: "env \<Rightarrow> path \<Rightarrow> bool" where
  "sender_refuses e p =
     (up_path p \<or>
      (let parts = split_on CHR ''/'' (normalize_path p)
       in list_ex dot_file parts \<and>
          (every_segment_checked e \<or>
           (case last parts of c # _ \<Rightarrow> c = CHR ''.'' | [] \<Rightarrow> False))))"

text \<open>
  \<^verbatim>\<open>res.download(p, name, callback)\<close>. A file that is not on disk, or that the sender
  refuses, is not sent and nothing has gone out when the callback gets the error; any other
  file goes out as the transport decides, under the header
  \<^verbatim>\<open>Content-Disposition: attachment\<close> whose file name is \<^verbatim>\<open>basename(name)\<close>. The result tells
  whether the callback got an error.
\<close>

definition res_download :: "env \<Rightarrow> path \<Rightarrow> string \<Rightarrow> world \<Rightarrow> bool \<times> world" where
  "res_download e p name w =
     (let w' = w\<lparr>downloads := downloads w @ [(p, name)]\<rparr>
      in if p \<notin> fs w \<or> sender_refuses e p then (True, w')
         else case transport e of
             Delivered \<Rightarrow>
               (False, w'\<lparr>responses := responses w @ [FileResponse p (basename name) True]\<rparr>)
           | FailedBeforeHeaders \<Rightarrow> (True, w')
           | FailedAfterHeaders \<Rightarrow>
               (True, w'\<lparr>responses := responses w @ [FileResponse p (basename name) False]\<rparr>))"

text \<open>
  \<^verbatim>\<open>fs.unlink(p, callback)\<close>: the attempt is recorded; the file goes when it is there and
  the system allows it, otherwise the callback gets an error (the result \<open>True\<close>).
\<close>

definition unlink :: "env \<Rightarrow> path \<Rightarrow> world \<Rightarrow> bool \<times> world" where
  "unlink e p w =
     (if p \<in> fs w \<and> unlink_ok e
      then (False, w\<lparr>fs := fs w - {p}, unlinks := unlinks w @ [p]\<rparr>)
      else (True, w\<lparr>unlinks := unlinks w @ [p]\<rparr>))"

text \<open>
  The promisified \<^verbatim>\<open>child_process.exec\<close>, called with a command and a working directory.
  \<^item> A NUL character in the command, or else in the working directory, makes Node throw
    before anything is started; the error has neither \<^verbatim>\<open>stdout\<close> nor \<^verbatim>\<open>stderr\<close>.
  \<^item> When no shell can be started, the promise is rejected with the error of the system
    and two empty channels.
  \<^item> When one channel has brought more bytes than \<^verbatim>\<open>maxBuffer\<close>, Node has ended the child
    and the promise is rejected with \<^verbatim>\<open>stdout maxBuffer length exceeded\<close> (or \<^verbatim>\<open>stderr\<close>),
    that channel cut at the limit. Node stops reading both channels at that moment, so only
    one of them can be over the limit; the model looks at \<^verbatim>\<open>stdout\<close> first.
  \<^item> Otherwise exit code 0 resolves with the two channels, and any other code, or an end by
    a signal, rejects with an error whose message is \<^verbatim>\<open>Command failed: \<close> followed by the
    command, a line break and the error channel.
\<close>

record js_error =
  message :: string
  e_stderr :: "string option"
  e_stdout :: "string option"

definition execPromise ::
  "env \<Rightarrow> string \<Rightarrow> path \<Rightarrow> world \<Rightarrow> (js_error + string \<times> string) \<times> world" where
  "execPromise e command cwd w =
     (if CHR 0x00 \<in> set command
      then (Inl \<lparr>message = arg_error e command, e_stderr = None, e_stdout = None\<rparr>, w)
      else if CHR 0x00 \<in> set cwd
      then (Inl \<lparr>message = arg_error e cwd, e_stderr = None, e_stdout = None\<rparr>, w)
      else case spawn e command cwd (fs w) of
          Inl msg \<Rightarrow> (Inl \<lparr>message = msg, e_stderr = Some [], e_stdout = Some []\<rparr>, w)
        | Inr p \<Rightarrow>
            (let w' = w\<lparr>fs := fs_after p, execs := execs w @ [(command, cwd)]\<rparr>
             in if max_buffer e < length (p_stdout p)
                then (Inl \<lparr>message = ''stdout maxBuffer length exceeded'',
                           e_stderr = Some (p_stderr p),
                           e_stdout = Some (take (max_buffer e) (p_stdout p))\<rparr>, w')
                else if max_buffer e < length (p_stderr p)
                then (Inl \<lparr>message = ''stderr maxBuffer length exceeded'',
                           e_stderr = Some (take (max_buffer e) (p_stderr p)),
                           e_stdout = Some (p_stdout p)\<rparr>, w')
                else if ending p = Exited 0 then (Inr (p_stdout p, p_stderr p), w')
                else (Inl \<lparr>message = ''Command failed: '' @ command @ [CHR 0x0A] @ p_stderr p,
                           e_stderr = Some (p_stderr p), e_stdout = Some (p_stdout p)\<rparr>, w')))"

section \<open>runRemotionRender\<close>

definition render_command :: "config \<Rightarrow> string \<Rightarrow> path \<Rightarrow> string" where
  "render_command cfg compositionId outputPath =
     ''npx remotion render '' @ dq @ remotionEntryPoint cfg @ dq @ '' '' @ compositionId
       @ '' '' @ dq @ outputPath @ dq"

text \<open>The \<^verbatim>\<open>catch\<close> of lines 67 to 72: three lines of log, then the error is thrown again.\<close>

definition rethrow :: "js_error \<Rightarrow> world \<Rightarrow> (js_error + bool) \<times> world" where
  "rethrow error w =
     (Inl error,
      log (ErrStdout (e_stdout error)) (log (ErrStderr (e_stderr error))
        (log (ErrExecuting (message error)) w)))"

definition runRemotionRender ::
  "config \<Rightarrow> env \<Rightarrow> string \<Rightarrow> path \<Rightarrow> json option \<Rightarrow> world \<Rightarrow> (js_error + bool) \<times> world" where
  "runRemotionRender cfg e compositionId outputPath inputProps w =
     (let propsString = stringify (props_or_empty inputProps);
          escapedPropsString = escape_single_quotes propsString;
          command = render_command cfg compositionId outputPath
      in case execPromise e command (remotionProjectDir cfg) w of
           (Inl error, w1) \<Rightarrow> rethrow error w1
         | (Inr (stdout, stderr), w1) \<Rightarrow>
             if stderr \<noteq> [] then
               (let w2 = log (WarnStderr stderr) w1
                in if includes_str (toLowerCase stderr) ''error''
                   then rethrow \<lparr>message = ''Remotion rendering failed. Stderr: '' @ stderr,
                                 e_stderr = None, e_stdout = None\<rparr> w2
                   else (Inr True, w2))
             else (Inr True, w1))"

section \<open>The handler of POST /api/render-and-download\<close>

definition uniqueFilename :: "env \<Rightarrow> string \<Rightarrow> string" where
  "uniqueFilename e cid = uuid e @ ''-'' @ cid @ ''.mp4''"

definition outputPath_of :: "config \<Rightarrow> env \<Rightarrow> string \<Rightarrow> path" where
  "outputPath_of cfg e cid = path_join (outputDir cfg) (uniqueFilename e cid)"

definition finalDownloadName :: "env \<Rightarrow> string \<Rightarrow> string" where
  "finalDownloadName e cid = cid @ ''-'' @ show_nat (now e) @ ''.mp4''"

definition send_failed_body :: "(string \<times> string) list" where
  "send_failed_body = [(''message'', ''Error sending the rendered file.'')]"

definition render_failed_body :: "string \<Rightarrow> (string \<times> string) list" where
  "render_failed_body msg = [(''message'', ''Video rendering failed.''), (''error'', msg)]"

text \<open>The callback of \<^verbatim>\<open>res.download\<close>, lines 96 to 120.\<close>

definition after_download :: "env \<Rightarrow> path \<Rightarrow> bool \<Rightarrow> world \<Rightarrow> world" where
  "after_download e outputPath err w =
     (let w1 = (if err then
                  (let w' = log (ErrSending outputPath) w
                   in if \<not> headersSent w' then res_json 500 send_failed_body w' else w')
                else w)
      in case unlink e outputPath w1 of
           (unlinkErr, w2) \<Rightarrow> if unlinkErr then log (ErrDeleting outputPath) w2 else w2)"

text \<open>
  The \<^verbatim>\<open>catch\<close> of the handler, lines 121 to 138. The deletion is started before the
  response is written and ends after it; the world at the end is the same either way.
\<close>

definition render_failed :: "env \<Rightarrow> path \<Rightarrow> js_error \<Rightarrow> world \<Rightarrow> world" where
  "render_failed e outputPath error w =
     (let w1 = log (ErrRenderFailed (message error)) w;
          w2 = (if outputPath \<in> fs w1 then
                  (case unlink e outputPath w1 of
                     (unlinkErr, w') \<Rightarrow>
                       if unlinkErr then log (ErrDeletingAfterFailure outputPath) w' else w')
                else w1)
      in if \<not> headersSent w2 then res_json 500 (render_failed_body (message error)) w2 else w2)"

definition render_and_download :: "config \<Rightarrow> env \<Rightarrow> request \<Rightarrow> world \<Rightarrow> world" where
  "render_and_download cfg e req w =
     (if \<not> truthy_str (body_compositionId req)
      then res_json 400 [(''message'', ''compositionId is required.'')] w
      else
        let cid = template_str (body_compositionId req);
            outputPath = outputPath_of cfg e cid
        in case runRemotionRender cfg e cid outputPath (body_inputProps req) w of
             (Inr ok, w1) \<Rightarrow>
               (case res_download e outputPath (finalDownloadName e cid) w1 of
                  (err, w2) \<Rightarrow> after_download e outputPath err w2)
           | (Inl error, w1) \<Rightarrow> render_failed e outputPath error w1)"

text \<open>One request served from a disk holding \<open>files\<close>.\<close>

definition serve :: "config \<Rightarrow> env \<Rightarrow> request \<Rightarrow> path set \<Rightarrow> world" where
  "serve cfg e req files = render_and_download cfg e req (start files)"

section \<open>Vocabulary of the statements\<close>

text \<open>
  \<open>plain_segments\<close> holds of a relative path none of whose segments is empty, \<^verbatim>\<open>.\<close> or
  \<^verbatim>\<open>..\<close>; \<open>dir_prefix d\<close> is the normalised directory \<open>d\<close> with the slash that follows it;
  \<open>decimal_value\<close> reads a string of digits as a number.
\<close>

definition plain_segments :: "string \<Rightarrow> bool" where
  "plain_segments f = list_all (\<lambda>s. s \<noteq> [] \<and> s \<noteq> ''.'' \<and> s \<noteq> ''..'') (split_on CHR ''/'' f)"

definition dir_prefix :: "path \<Rightarrow> string" where
  "dir_prefix d =
     (if d = [] then []
      else
        let isAbsolute = (hd d = CHR ''/'');
            res = foldl (norm_step (\<not> isAbsolute)) [] (split_on CHR ''/'' d)
        in (if isAbsolute then ''/'' else []) @ (if res = [] then [] else join_with ''/'' res @ ''/''))"

definition decimal_value :: "string \<Rightarrow> nat" where
  "decimal_value s = foldl (\<lambda>a c. 10 * a + (of_char c - 48)) 0 s"

text \<open>
  What \<^verbatim>\<open>exec\<close> makes of a command: \<open>exec_run\<close> is the child that ran, when a shell was
  started; \<open>start_error\<close> is the error when none was. \<open>within_buffer\<close> holds of a child
  that stayed within the limit on both channels. The remaining errors are the ones
  \<open>execPromise\<close> and \<open>runRemotionRender\<close> build.
\<close>

definition exec_run :: "env \<Rightarrow> string \<Rightarrow> path \<Rightarrow> path set \<Rightarrow> proc option" where
  "exec_run e command cwd files =
     (if CHR 0x00 \<in> set command \<or> CHR 0x00 \<in> set cwd then None
      else case spawn e command cwd files of Inl msg \<Rightarrow> None | Inr pr \<Rightarrow> Some pr)"

definition start_error :: "env \<Rightarrow> string \<Rightarrow> path \<Rightarrow> path set \<Rightarrow> js_error" where
  "start_error e command cwd files =
     (if CHR 0x00 \<in> set command
      then \<lparr>message = arg_error e command, e_stderr = None, e_stdout = None\<rparr>
      else if CHR 0x00 \<in> set cwd
      then \<lparr>message = arg_error e cwd, e_stderr = None, e_stdout = None\<rparr>
      else \<lparr>message = (case spawn e command cwd files of Inl msg \<Rightarrow> msg | Inr pr \<Rightarrow> []),
             e_stderr = Some [], e_stdout = Some []\<rparr>)"

definition within_buffer :: "env \<Rightarrow> proc \<Rightarrow> bool" where
  "within_buffer e pr \<longleftrightarrow>
     length (p_stdout pr) \<le> max_buffer e \<and> length (p_stderr pr) \<le> max_buffer e"

definition overflow_error :: "env \<Rightarrow> proc \<Rightarrow> js_error" where
  "overflow_error e pr =
     (if max_buffer e < length (p_stdout pr)
      then \<lparr>message = ''stdout maxBuffer length exceeded'', e_stderr = Some (p_stderr pr),
             e_stdout = Some (take (max_buffer e) (p_stdout pr))\<rparr>
      else \<lparr>message = ''stderr maxBuffer length exceeded'',
             e_stderr = Some (take (max_buffer e) (p_stderr pr)), e_stdout = Some (p_stdout pr)\<rparr>)"

definition exec_failed :: "string \<Rightarrow> proc \<Rightarrow> js_error" where
  "exec_failed command pr =
     \<lparr>message = ''Command failed: '' @ command @ [CHR 0x0A] @ p_stderr pr,
      e_stderr = Some (p_stderr pr), e_stdout = Some (p_stdout pr)\<rparr>"

definition stderr_failed :: "string \<Rightarrow> js_error" where
  "stderr_failed err =
     \<lparr>message = ''Remotion rendering failed. Stderr: '' @ err, e_stderr = None, e_stdout = None\<rparr>"

text \<open>
  Names for what one request computes: its composition id as the handler prints it, the
  path it allocates, the command it builds, the child that ran for it, what
  \<open>runRemotionRender\<close> returns and the files on disk at that moment.
\<close>

definition request_cid :: "request \<Rightarrow> string" where
  "request_cid req = template_str (body_compositionId req)"

definition request_path :: "config \<Rightarrow> env \<Rightarrow> request \<Rightarrow> path" where
  "request_path cfg e req = outputPath_of cfg e (request_cid req)"

definition request_command :: "config \<Rightarrow> env \<Rightarrow> request \<Rightarrow> string" where
  "request_command cfg e req = render_command cfg (request_cid req) (request_path cfg e req)"

definition request_run :: "config \<Rightarrow> env \<Rightarrow> request \<Rightarrow> path set \<Rightarrow> proc option" where
  "request_run cfg e req files =
     exec_run e (request_command cfg e req) (remotionProjectDir cfg) files"

definition render_outcome :: "config \<Rightarrow> env \<Rightarrow> request \<Rightarrow> path set \<Rightarrow> js_error + bool" where
  "render_outcome cfg e req files =
     fst (runRemotionRender cfg e (request_cid req) (request_path cfg e req) (body_inputProps req)
            (start files))"

definition disk_after_render :: "config \<Rightarrow> env \<Rightarrow> request \<Rightarrow> path set \<Rightarrow> path set" where
  "disk_after_render cfg e req files =
     fs (snd (runRemotionRender cfg e (request_cid req) (request_path cfg e req)
                (body_inputProps req) (start files)))"

definition after_render :: "world \<Rightarrow> config \<Rightarrow> env \<Rightarrow> request \<Rightarrow> path set \<Rightarrow> bool" where
  "after_render w1 cfg e req files \<longleftrightarrow>
     fs w1 = disk_after_render cfg e req files \<and> responses w1 = [] \<and>
     execs w1 = (case request_run cfg e req files of
                   None \<Rightarrow> []
                 | Some pr \<Rightarrow> [(request_command cfg e req, remotionProjectDir cfg)]) \<and>
     downloads w1 = [] \<and> unlinks w1 = []"

section \<open>Example inputs\<close>

text \<open>
  A server installed under \<^verbatim>\<open>/srv\<close>, two tokens, and renderers that behave in a fixed way:
  one exits with \<open>code\<close>, having written \<open>out\<close> and \<open>err\<close> to its channels, and leaves
  the files of \<open>made\<close> on disk, whatever the command.
\<close>

definition cfg_demo :: config where
  "cfg_demo = \<lparr>remotionProjectDir = ''/srv/frontend'', outputDir = ''/srv/backend/output''\<rparr>"

definition uuid_a :: string where
  "uuid_a = ''3f2b8c1e-5d4a-4c7b-9e0f-1a2b3c4d5e6f''"

definition uuid_b :: string where
  "uuid_b = ''9a8b7c6d-1e2f-4a3b-8c4d-5e6f7a8b9c0d''"

definition path_intro_a :: path where
  "path_intro_a = ''/srv/backend/output/3f2b8c1e-5d4a-4c7b-9e0f-1a2b3c4d5e6f-intro.mp4''"

definition renderer_stub ::
  "nat \<Rightarrow> string \<Rightarrow> string \<Rightarrow> path set \<Rightarrow> string \<Rightarrow> path \<Rightarrow> path set \<Rightarrow> string + proc" where
  "renderer_stub code out err made command cwd files =
     Inr \<lparr>ending = Exited code, p_stdout = out, p_stderr = err, fs_after = files \<union> made\<rparr>"

definition env_demo :: env where
  "env_demo =
     \<lparr>uuid = uuid_a, now = 1700000000123,
      arg_error = (\<lambda>v. ''The argument must be a string without null bytes''),
      spawn = renderer_stub 0 [] ''Rendered 30/30 frames'' {path_intro_a},
      max_buffer = 1048576,
      transport = Delivered, every_segment_checked = True, unlink_ok = True\<rparr>"

definition req_intro :: request where
  "req_intro =
     \<lparr>body_compositionId = Some ''intro'',
      body_inputProps = Some (JObj [(''title'', JStr ''Hello'')])\<rparr>"

definition req_missing :: request where
  "req_missing = \<lparr>body_compositionId = None, body_inputProps = Some (JObj [(''title'', JStr ''Hello'')])\<rparr>"

definition env_locked :: env where
  "env_locked = env_demo\<lparr>unlink_ok := False\<rparr>"

definition env_crash :: env where
  "env_crash = env_demo\<lparr>spawn := renderer_stub 1 [] ''ffmpeg: broken pipe'' {path_intro_a}\<rparr>"

definition env_crash_locked :: env where
  "env_crash_locked = env_crash\<lparr>unlink_ok := False\<rparr>"

text \<open>A renderer that writes one byte more than the limit to its error channel before it exits with code 1.\<close>

definition env_crash_flood :: env where
  "env_crash_flood =
     env_demo\<lparr>spawn := renderer_stub 1 [] (replicate 1048577 (CHR ''x'')) {path_intro_a}\<rparr>"


definition env_nofile :: env where
  "env_nofile = env_demo\<lparr>spawn := renderer_stub 0 [] ''Rendered 0/0 frames'' {}\<rparr>"


definition env_flood_nofile :: env where
  "env_flood_nofile =
     env_demo\<lparr>spawn := renderer_stub 0 (replicate 1048577 (CHR ''.'')) ''Rendered 0/0 frames'' {}\<rparr>"

text \<open>A system on which no shell can be started.\<close>

definition env_noshell :: env where
  "env_noshell = env_demo\<lparr>spawn := (\<lambda>command cwd files. Inl ''spawn /bin/sh ENOENT'')\<rparr>"

definition env_aborted :: env where
  "env_aborted = env_demo\<lparr>transport := FailedAfterHeaders\<rparr>"

definition env_refused :: env where
  "env_refused = env_demo\<lparr>transport := FailedBeforeHeaders\<rparr>"


definition env_b :: env where
  "env_b = env_demo\<lparr>uuid := uuid_b\<rparr>"

definition req_dotdot :: request where
  "req_dotdot =
     \<lparr>body_compositionId = Some ''x/../y'',
      body_inputProps = Some (JObj [(''title'', JStr ''Hello'')])\<rparr>"

definition req_dotdot_b :: request where
  "req_dotdot_b =
     \<lparr>body_compositionId = Some ''x/../y'',
      body_inputProps = Some (JObj [(''title'', JStr ''Goodbye'')])\<rparr>"

definition req_meta :: request where
  "req_meta = \<lparr>body_compositionId = Some ''sub/intro;id'', body_inputProps = None\<rparr>"

definition req_nul :: request where
  "req_nul = \<lparr>body_compositionId = Some [CHR ''a'', CHR 0x00, CHR ''b''], body_inputProps = None\<rparr>"

definition req_dot :: request where
  "req_dot = \<lparr>body_compositionId = Some ''a/./b'', body_inputProps = None\<rparr>"

definition req_nested :: request where
  "req_nested = \<lparr>body_compositionId = Some ''a/b'', body_inputProps = None\<rparr>"

definition path_nested :: path where
  "path_nested = ''/srv/backend/output/3f2b8c1e-5d4a-4c7b-9e0f-1a2b3c4d5e6f-a/b.mp4''"

definition env_nested :: env where
  "env_nested = env_demo\<lparr>spawn := renderer_stub 0 [] ''Rendered 30/30 frames'' {path_nested}\<rparr>"

definition req_hidden :: request where
  "req_hidden = \<lparr>body_compositionId = Some ''clips/.draft'', body_inputProps = None\<rparr>"

definition path_hidden :: path where
  "path_hidden = ''/srv/backend/output/3f2b8c1e-5d4a-4c7b-9e0f-1a2b3c4d5e6f-clips/.draft.mp4''"

definition env_hidden :: env where
  "env_hidden = env_demo\<lparr>spawn := renderer_stub 0 [] ''Rendered 30/30 frames'' {path_hidden}\<rparr>"

definition path_dot_directory :: path where
  "path_dot_directory = ''/home/app/.local/output/3f2b8c1e-5d4a-4c7b-9e0f-1a2b3c4d5e6f-intro.mp4''"

definition path_backslashes :: path where
  "path_backslashes =
     ''/srv/backend/output/3f2b8c1e-5d4a-4c7b-9e0f-1a2b3c4d5e6f-a'' @ [CHR 0x5C] @ ''..'' @
       [CHR 0x5C] @ ''b.mp4''"

definition req_slashes :: request where
  "req_slashes =
     \<lparr>body_compositionId = Some ''a//b'',
      body_inputProps = Some (JObj [(''title'', JStr ''Hello'')])\<rparr>"

definition req_slashes_b :: request where
  "req_slashes_b =
     \<lparr>body_compositionId = Some ''a//b'',
      body_inputProps = Some (JObj [(''title'', JStr ''Goodbye'')])\<rparr>"

definition req_intro_bye :: request where
  "req_intro_bye =
     \<lparr>body_compositionId = Some ''intro'',
      body_inputProps = Some (JObj [(''title'', JStr ''Goodbye'')])\<rparr>"

section \<open>Facts about the string operations\<close>

lemma starts_with_iff: "starts_with s t \<longleftrightarrow> (\<exists>q. s = t @ q)"
  by (induction s t rule: starts_with.induct) auto

text \<open>\<open>includes_str\<close> decides exactly the substring relation.\<close>

lemma includes_str_iff: "includes_str s t \<longleftrightarrow> (\<exists>p q. s = p @ t @ q)"
proof (induction s)
  case Nil
  then show ?case by simp
next
  case (Cons d s)
  show ?case
  proof
    assume "includes_str (d # s) t"
    then consider "starts_with (d # s) t" | "includes_str s t" by auto
    then show "\<exists>p q. d # s = p @ t @ q"
    proof cases
      case 1
      then obtain q where "d # s = t @ q" by (auto simp: starts_with_iff)
      then have "d # s = [] @ t @ q" by simp
      then show ?thesis by blast
    next
      case 2
      then obtain p q where "s = p @ t @ q" using Cons.IH by blast
      then have "d # s = (d # p) @ t @ q" by simp
      then show ?thesis by blast
    qed
  next
    assume "\<exists>p q. d # s = p @ t @ q"
    then obtain p q where pq: "d # s = p @ t @ q" by blast
    show "includes_str (d # s) t"
    proof (cases p)
      case Nil
      with pq have "starts_with (d # s) t" by (auto simp: starts_with_iff)
      then show ?thesis by simp
    next
      case (Cons a p')
      with pq have "s = p' @ t @ q" by simp
      then have "includes_str s t" using Cons.IH by blast
      then show ?thesis by simp
    qed
  qed
qed

section \<open>Facts about path.join\<close>

lemma split_on_not_Nil: "split_on c s \<noteq> []"
  by (induction s) (auto split: list.splits)

lemma split_on_append: "split_on c (a @ c # b) = split_on c a @ split_on c b"
proof (induction a)
  case Nil
  then show ?case by simp
next
  case (Cons d a)
  then show ?case
    using split_on_not_Nil [of c a] by (auto split: list.splits)
qed

lemma split_on_no_sep: "c \<notin> set s \<Longrightarrow> split_on c s = [s]"
  by (induction s) auto

lemma join_split: "join_with [c] (split_on c s) = s"
proof (induction s)
  case Nil
  then show ?case by simp
next
  case (Cons d s)
  show ?case
  proof (cases "d = c")
    case True
    obtain p ps where "split_on c s = p # ps"
      using split_on_not_Nil [of c s] by (cases "split_on c s") auto
    with True Cons.IH show ?thesis by simp
  next
    case False
    obtain p ps where pp: "split_on c s = p # ps"
      using split_on_not_Nil [of c s] by (cases "split_on c s") auto
    with False Cons.IH show ?thesis by (cases ps) auto
  qed
qed

lemma join_with_append:
  "xs \<noteq> [] \<Longrightarrow> ys \<noteq> [] \<Longrightarrow> join_with sep (xs @ ys) = join_with sep xs @ sep @ join_with sep ys"
proof (induction sep xs rule: join_with.induct)
  case (1 sep)
  then show ?case by simp
next
  case (2 sep x)
  then show ?case by (cases ys) auto
next
  case (3 sep x y ys')
  then show ?case by simp
qed

lemma norm_step_plain: "seg \<noteq> [] \<Longrightarrow> seg \<noteq> ''.'' \<Longrightarrow> seg \<noteq> ''..'' \<Longrightarrow> norm_step a res seg = res @ [seg]"
  by (simp add: norm_step_def)

lemma foldl_norm_step_plain:
  "list_all (\<lambda>s. s \<noteq> [] \<and> s \<noteq> ''.'' \<and> s \<noteq> ''..'') segs \<Longrightarrow>
   foldl (norm_step a) res segs = res @ segs"
  by (induction segs arbitrary: res) (auto simp: norm_step_plain)

lemma plain_segments_hd: "plain_segments f \<Longrightarrow> f \<noteq> [] \<and> hd f \<noteq> CHR ''/''"
  by (cases f) (auto simp: plain_segments_def)

lemma plain_segments_last: "plain_segments f \<Longrightarrow> last f \<noteq> CHR ''/''"
proof
  assume pl: "plain_segments f" and l: "last f = CHR ''/''"
  from pl have "f \<noteq> []" by (simp add: plain_segments_hd)
  with l have "f = butlast f @ CHR ''/'' # []" by (metis append_butlast_last_id)
  then have "split_on CHR ''/'' f = split_on CHR ''/'' (butlast f) @ [[]]"
    by (metis split_on_append split_on.simps(1))
  with pl show False by (simp add: plain_segments_def)
qed

lemma normalizeString_plain:
  assumes "plain_segments f"
  shows "normalizeString f a = f"
proof -
  have "foldl (norm_step a) [] (split_on CHR ''/'' f) = split_on CHR ''/'' f"
    using assms foldl_norm_step_plain [of "split_on CHR ''/'' f" a "[]"]
    by (simp add: plain_segments_def)
  then show ?thesis
    using join_split [of "CHR ''/''" f] by (simp add: normalizeString_def)
qed

lemma normalizeString_dir_plain:
  assumes "plain_segments f"
  shows "normalizeString (d @ CHR ''/'' # f) a =
           (if foldl (norm_step a) [] (split_on CHR ''/'' d) = [] then f
            else join_with ''/'' (foldl (norm_step a) [] (split_on CHR ''/'' d)) @ ''/'' @ f)"
proof -
  let ?res = "foldl (norm_step a) [] (split_on CHR ''/'' d)"
  have sp: "split_on CHR ''/'' (d @ CHR ''/'' # f) = split_on CHR ''/'' d @ split_on CHR ''/'' f"
    by (rule split_on_append)
  have "foldl (norm_step a) ?res (split_on CHR ''/'' f) = ?res @ split_on CHR ''/'' f"
    using assms by (intro foldl_norm_step_plain) (simp add: plain_segments_def)
  then have fo: "foldl (norm_step a) [] (split_on CHR ''/'' (d @ CHR ''/'' # f)) = ?res @ split_on CHR ''/'' f"
    by (simp add: sp)
  have jf: "join_with ''/'' (split_on CHR ''/'' f) = f"
    using join_split [of "CHR ''/''" f] by simp
  show ?thesis
  proof (cases "?res = []")
    case True
    with fo jf show ?thesis by (simp add: normalizeString_def)
  next
    case False
    have "join_with ''/'' (?res @ split_on CHR ''/'' f) =
            join_with ''/'' ?res @ ''/'' @ join_with ''/'' (split_on CHR ''/'' f)"
      using False split_on_not_Nil by (rule join_with_append)
    with fo False jf show ?thesis by (simp add: normalizeString_def)
  qed
qed

lemma path_join_plain:
  assumes "plain_segments f"
  shows "path_join d f = dir_prefix d @ f"
proof (cases "d = []")
  case True
  from assms have f: "f \<noteq> []" "hd f \<noteq> CHR ''/''" "last f \<noteq> CHR ''/''"
    by (simp_all add: plain_segments_hd plain_segments_last)
  with True assms show ?thesis
    by (simp add: path_join_def normalize_path_def normalizeString_plain dir_prefix_def)
next
  case False
  from assms have f: "f \<noteq> []" "last f \<noteq> CHR ''/''"
    by (simp_all add: plain_segments_hd plain_segments_last)
  let ?p = "d @ CHR ''/'' # f"
  have j: "path_join d f = normalize_path ?p"
    using False f by (simp add: path_join_def)
  have hd: "hd ?p = hd d" using False by simp
  have la: "last ?p \<noteq> CHR ''/''" using f by simp
  have q: "normalizeString ?p a \<noteq> []" for a
    using f by (simp add: normalizeString_dir_plain [OF assms])
  have "normalize_path ?p =
          (if hd d = CHR ''/'' then ''/'' @ normalizeString ?p False else normalizeString ?p True)"
    using q la by (simp add: normalize_path_def hd Let_def)
  also have "\<dots> = dir_prefix d @ f"
    using False by (simp add: normalizeString_dir_plain [OF assms] dir_prefix_def Let_def)
  finally show ?thesis using j by simp
qed

lemma plain_segments_no_slash:
  assumes "CHR ''/'' \<notin> set f" and "2 < length f"
  shows "plain_segments f"
  using assms by (auto simp: plain_segments_def split_on_no_sep)

section \<open>Facts about the numeral of the clock and about base names\<close>

lemma digit_char_digit: "d < 10 \<Longrightarrow> digit_char d \<in> set ''0123456789''"
proof -
  assume "d < 10"
  then have "d < length ''0123456789''" by simp
  then show ?thesis unfolding digit_char_def by (rule nth_mem)
qed

lemma digit_char_value: "d < 10 \<Longrightarrow> of_char (digit_char d) - 48 = d"
proof -
  assume d: "d < 10"
  have m: "map (\<lambda>c. (of_char c :: nat) - 48) ''0123456789'' = [0..<10]" by code_simp
  have l: "d < length ''0123456789''" using d by simp
  have "(of_char (digit_char d) :: nat) - 48 = map (\<lambda>c. of_char c - 48) ''0123456789'' ! d"
    unfolding digit_char_def by (rule nth_map [OF l, symmetric])
  also have "\<dots> = [0..<10] ! d" by (simp only: m)
  also have "\<dots> = d" using d by simp
  finally show ?thesis .
qed

lemma decimal_value_snoc: "decimal_value (s @ [c]) = 10 * decimal_value s + (of_char c - 48)"
  by (simp add: decimal_value_def)

text \<open>\<open>show_nat\<close> writes the decimal numeral of its argument: digits only, of the right value, with no zero in front.\<close>

lemma show_nat_digits: "set (show_nat n) \<subseteq> set ''0123456789''"
proof (induction n rule: show_nat.induct)
  case (1 n)
  show ?case
  proof (cases "n < 10")
    case True
    then show ?thesis using digit_char_digit [of n] by (subst show_nat.simps) simp
  next
    case False
    have "n mod 10 < 10" by simp
    then have "digit_char (n mod 10) \<in> set ''0123456789''" by (rule digit_char_digit)
    with False "1.IH" show ?thesis by (subst show_nat.simps) simp
  qed
qed

lemma decimal_value_show_nat: "decimal_value (show_nat n) = n"
proof (induction n rule: show_nat.induct)
  case (1 n)
  show ?case
  proof (cases "n < 10")
    case True
    then show ?thesis
      using digit_char_value [of n] by (subst show_nat.simps) (simp add: decimal_value_def)
  next
    case False
    have "of_char (digit_char (n mod 10)) - 48 = n mod 10"
      by (rule digit_char_value) simp
    with False "1.IH" show ?thesis
      by (subst show_nat.simps) (simp add: decimal_value_snoc)
  qed
qed

lemma show_nat_not_Nil: "show_nat n \<noteq> []"
  by (subst show_nat.simps) simp

lemma show_nat_no_leading_zero: "n \<noteq> 0 \<Longrightarrow> hd (show_nat n) \<noteq> CHR ''0''"
proof (induction n rule: show_nat.induct)
  case (1 n)
  show ?case
  proof (cases "n < 10")
    case True
    then have s: "show_nat n = [digit_char n]" by (subst show_nat.simps) simp
    have "digit_char n \<noteq> CHR ''0''"
    proof
      assume "digit_char n = CHR ''0''"
      with digit_char_value [OF True] have "n = 0" by simp
      with "1.prems" show False by simp
    qed
    with s show ?thesis by simp
  next
    case False
    then have "n div 10 \<noteq> 0" by simp
    with False "1.IH" have "hd (show_nat (n div 10)) \<noteq> CHR ''0''" by simp
    with False show ?thesis
      using show_nat_not_Nil [of "n div 10"] by (subst show_nat.simps) simp
  qed
qed

lemma show_nat_no_slash: "CHR ''/'' \<notin> set (show_nat n)"
  using show_nat_digits [of n] by auto

lemma split_on_append_tail:
  "c \<notin> set t \<Longrightarrow>
   split_on c (a @ t) = butlast (split_on c a) @ [last (split_on c a) @ t]"
proof (induction a)
  case Nil
  then show ?case by (simp add: split_on_no_sep)
next
  case (Cons d a)
  obtain p ps where sp: "split_on c a = p # ps"
    using split_on_not_Nil [of c a] by (cases "split_on c a") auto
  from Cons have ih: "split_on c (a @ t) = butlast (p # ps) @ [last (p # ps) @ t]"
    by (simp add: sp)
  show ?case
  proof (cases "d = c")
    case True
    with sp ih show ?thesis by simp
  next
    case False
    with sp ih show ?thesis by (cases ps) simp_all
  qed
qed

lemma last_split_on_append:
  "c \<notin> set t \<Longrightarrow> last (split_on c (a @ t)) = last (split_on c a) @ t"
  by (simp add: split_on_append_tail)

lemma basename_append:
  assumes "CHR ''/'' \<notin> set t" and "t \<noteq> []"
  shows "basename (a @ t) = last (split_on CHR ''/'' a) @ t"
proof -
  obtain x xs where r: "rev t = x # xs"
    using assms(2) by (cases "rev t") auto
  then have "x \<in> set t" by (metis list.set_intros(1) set_rev)
  then have x: "x \<noteq> CHR ''/''" using assms(1) by auto
  have "rev (a @ t) = x # xs @ rev a" using r by simp
  then have "dropWhile (\<lambda>c. c = CHR ''/'') (rev (a @ t)) = rev (a @ t)"
    using x by simp
  then have "strip_trailing_slashes (a @ t) = a @ t"
    unfolding strip_trailing_slashes_def by (metis rev_rev_ident)
  then show ?thesis
    using last_split_on_append [OF assms(1), of a] by (simp add: basename_def)
qed

text \<open>The library functions at a few inputs, with the results Node gives.\<close>

lemma basename_examples:
  "basename ''/srv/out/clip.mp4'' = ''clip.mp4''"
  "basename ''a/b//'' = ''b''"
  "basename ''clip.mp4'' = ''clip.mp4''"
  "basename ''///'' = []"
  by (simp_all add: basename_def strip_trailing_slashes_def)

lemma path_join_examples:
  "path_join ''/foo'' ''bar/baz/../quux'' = ''/foo/bar/quux''"
  "path_join ''/foo/'' ''./bar//baz/'' = ''/foo/bar/baz/''"
  "path_join ''foo'' ''../../bar'' = ''../bar''"
  "path_join ''/'' ''../x'' = ''/x''"
  "path_join [] [] = ''.''"
  by (simp_all add: path_join_def normalize_path_def normalizeString_def norm_step_def)

lemma string_examples:
  "toLowerCase ''ERROR: Z9'' = ''error: z9''"
  "escape_single_quotes [CHR ''a'', CHR 0x27, CHR ''b''] =
     [CHR ''a'', CHR 0x27, CHR 0x5C, CHR 0x27, CHR 0x27, CHR ''b'']"
  "includes_str ''an error.'' ''error''"
  "\<not> includes_str ''an err or'' ''error''"
  "show_nat 0 = ''0''"
  "show_nat 1700000000123 = ''1700000000123''"
  by (simp_all add: toLowerCase_def lower_char_def escape_single_quotes_def escape_quote_def
      show_nat.simps digit_char_def)

lemma stringify_examples:
  "stringify (props_or_empty None) = ''{}''"
  "props_or_empty (Some JNull) = JObj []"
  "props_or_empty (Some (JNum ''0'')) = JObj []"
  "props_or_empty (Some (JStr [])) = JObj []"
  "props_or_empty (Some (JBool False)) = JObj []"
  "props_or_empty (Some (JArr [])) = JArr []"
  "stringify (JObj [(''a'', JArr [JNum ''1'', JNull, JBool True]),
                    (''b'', JStr [CHR 0x22, CHR 0x0A, CHR 0x01])]) =
     ''{'' @ dq @ ''a'' @ dq @ '':[1,null,true],'' @ dq @ ''b'' @ dq @ '':'' @ dq @
       [CHR 0x5C, CHR 0x22, CHR 0x5C, CHR ''n'', CHR 0x5C] @ ''u0001'' @ dq @ ''}''"
  by (simp_all add: props_or_empty_def truthy_json_def quote_json_def quote_char_def
      hex_digit_def dq_def)

lemma basename_download_name:
  "basename (cid @ ''-'' @ show_nat n @ ''.mp4'') =
     last (split_on CHR ''/'' cid) @ ''-'' @ show_nat n @ ''.mp4''"
proof -
  have "CHR ''/'' \<notin> set (''-'' @ show_nat n @ ''.mp4'')"
    using show_nat_no_slash [of n] by simp
  then show ?thesis
    using basename_append [of "''-'' @ show_nat n @ ''.mp4''" cid] by simp
qed

section \<open>Paths that keep their token\<close>

text \<open>
  A file name that begins with a token without a slash, in a path without \<^verbatim>\<open>..\<close> segments:
  the token's segment is never removed, so the joined path is the directory, the token and
  a rest.
\<close>

lemma split_on_token:
  assumes "c \<notin> set u" and "x \<noteq> c"
  shows "split_on c (u @ x # r) = (u @ x # hd (split_on c r)) # tl (split_on c r)"
  using assms
proof (induction u)
  case Nil
  obtain p ps where "split_on c r = p # ps"
    using split_on_not_Nil [of c r] by (cases "split_on c r") auto
  with Nil show ?case by simp
next
  case (Cons d u)
  then show ?case by auto
qed

lemma foldl_norm_step_no_dotdot:
  "''..'' \<notin> set segs \<Longrightarrow>
   foldl (norm_step a) res segs = res @ filter (\<lambda>s. s \<noteq> [] \<and> s \<noteq> ''.'') segs"
  by (induction segs arbitrary: res) (auto simp: norm_step_def)

lemma join_with_Cons: "join_with sep (x # xs) = x @ (if xs = [] then [] else sep @ join_with sep xs)"
  by (cases xs) simp_all

lemma normalized_token:
  assumes "CHR ''/'' \<notin> set u"
      and "''..'' \<notin> set (split_on CHR ''/'' (u @ CHR ''-'' # r))"
  shows "\<exists>t. foldl (norm_step a) res (split_on CHR ''/'' (u @ CHR ''-'' # r)) = res @ (u @ CHR ''-'' # t) # filter (\<lambda>s. s \<noteq> [] \<and> s \<noteq> ''.'') (tl (split_on CHR ''/'' r))"
proof -
  let ?h = "hd (split_on CHR ''/'' r)"
  have sp: "split_on CHR ''/'' (u @ CHR ''-'' # r) = (u @ CHR ''-'' # ?h) # tl (split_on CHR ''/'' r)"
    using assms(1) by (intro split_on_token) simp_all
  have ne: "u @ CHR ''-'' # ?h \<noteq> []" by simp
  have nd: "u @ CHR ''-'' # ?h \<noteq> ''.''" by (cases u) auto
  have "foldl (norm_step a) res (split_on CHR ''/'' (u @ CHR ''-'' # r)) =
          res @ filter (\<lambda>s. s \<noteq> [] \<and> s \<noteq> ''.'') (split_on CHR ''/'' (u @ CHR ''-'' # r))"
    using assms(2) by (rule foldl_norm_step_no_dotdot)
  also have "\<dots> = res @ (u @ CHR ''-'' # ?h) # filter (\<lambda>s. s \<noteq> [] \<and> s \<noteq> ''.'') (tl (split_on CHR ''/'' r))"
    using ne nd by (simp add: sp)
  finally show ?thesis by blast
qed

lemma join_with_token:
  "\<exists>t. join_with ''/'' (res @ (u @ CHR ''-'' # h) # ks) =
         (if res = [] then [] else join_with ''/'' res @ ''/'') @ u @ t"
proof (cases "res = []")
  case True
  then show ?thesis by (simp add: join_with_Cons)
next
  case False
  have "join_with ''/'' (res @ (u @ CHR ''-'' # h) # ks) =
          join_with ''/'' res @ ''/'' @ join_with ''/'' ((u @ CHR ''-'' # h) # ks)"
    using False by (intro join_with_append) simp_all
  with False show ?thesis by (simp add: join_with_Cons)
qed

lemma normalizeString_token:
  assumes "CHR ''/'' \<notin> set u"
      and "''..'' \<notin> set (split_on CHR ''/'' (u @ CHR ''-'' # r))"
  shows "\<exists>t. normalizeString (u @ CHR ''-'' # r) a = u @ t"
proof -
  obtain h where "foldl (norm_step a) [] (split_on CHR ''/'' (u @ CHR ''-'' # r)) =
      [] @ (u @ CHR ''-'' # h) # filter (\<lambda>s. s \<noteq> [] \<and> s \<noteq> ''.'') (tl (split_on CHR ''/'' r))"
    using normalized_token [OF assms, of a "[]"] by blast
  then show ?thesis
    using join_with_token [of "[]" u h] by (simp add: normalizeString_def)
qed

lemma path_join_token:
  assumes "CHR ''/'' \<notin> set u"
      and "''..'' \<notin> set (split_on CHR ''/'' (u @ ''-'' @ c @ ''.mp4''))"
  shows "\<exists>t. path_join d (u @ ''-'' @ c @ ''.mp4'') = dir_prefix d @ u @ t"
proof -
  let ?r = "c @ ''.mp4''"
  let ?f = "u @ CHR ''-'' # ?r"
  have f: "u @ ''-'' @ c @ ''.mp4'' = ?f" by simp
  have nd: "''..'' \<notin> set (split_on CHR ''/'' ?f)" using assms(2) by simp
  have fne: "?f \<noteq> []" by simp
  have la: "last ?f \<noteq> CHR ''/''" by simp
  have hdf: "hd ?f \<noteq> CHR ''/''" using assms(1) by (cases u) auto
  show ?thesis
  proof (cases "d = []")
    case True
    obtain t where t: "normalizeString ?f True = u @ t"
      using normalizeString_token [OF assms(1) nd] by blast
    have "u @ t \<noteq> []"
    proof
      assume "u @ t = []"
      with t have "normalizeString ?f True = []" by simp
      moreover obtain h where "foldl (norm_step True) [] (split_on CHR ''/'' ?f) =
          [] @ (u @ CHR ''-'' # h) # filter (\<lambda>s. s \<noteq> [] \<and> s \<noteq> ''.'') (tl (split_on CHR ''/'' ?r))"
        using normalized_token [OF assms(1) nd, of True "[]"] by blast
      ultimately show False by (simp add: normalizeString_def join_with_Cons)
    qed
    then have "normalize_path ?f = u @ t"
      using fne la hdf t by (simp add: normalize_path_def Let_def)
    then show ?thesis using True by (simp add: path_join_def dir_prefix_def)
  next
    case False
    let ?p = "d @ CHR ''/'' # ?f"
    have j: "path_join d (u @ ''-'' @ c @ ''.mp4'') = normalize_path ?p"
      using False by (simp add: path_join_def)
    have hd: "hd ?p = hd d" using False by simp
    have lap: "last ?p \<noteq> CHR ''/''" by simp
    have q: "\<exists>t. normalizeString ?p a =
           (if foldl (norm_step a) [] (split_on CHR ''/'' d) = [] then []
            else join_with ''/'' (foldl (norm_step a) [] (split_on CHR ''/'' d)) @ ''/'') @ u @ t \<and>
           normalizeString ?p a \<noteq> []" for a
    proof -
      let ?res = "foldl (norm_step a) [] (split_on CHR ''/'' d)"
      have sp: "split_on CHR ''/'' ?p = split_on CHR ''/'' d @ split_on CHR ''/'' ?f"
        by (rule split_on_append)
      obtain h where h: "foldl (norm_step a) ?res (split_on CHR ''/'' ?f) =
          ?res @ (u @ CHR ''-'' # h) # filter (\<lambda>s. s \<noteq> [] \<and> s \<noteq> ''.'') (tl (split_on CHR ''/'' ?r))"
        using normalized_token [OF assms(1) nd, of a ?res] by blast
      let ?ks = "filter (\<lambda>s. s \<noteq> [] \<and> s \<noteq> ''.'') (tl (split_on CHR ''/'' ?r))"
      have n: "normalizeString ?p a = join_with ''/'' (?res @ (u @ CHR ''-'' # h) # ?ks)"
        using h by (simp add: normalizeString_def sp)
      obtain t where t: "join_with ''/'' (?res @ (u @ CHR ''-'' # h) # ?ks) =
          (if ?res = [] then [] else join_with ''/'' ?res @ ''/'') @ u @ t"
        using join_with_token [of ?res u h ?ks] by blast
      have ne: "join_with ''/'' (?res @ (u @ CHR ''-'' # h) # ?ks) \<noteq> []"
      proof (cases "?res = []")
        case True
        then show ?thesis by (simp add: join_with_Cons)
      next
        case False
        have "join_with ''/'' (?res @ (u @ CHR ''-'' # h) # ?ks) =
                join_with ''/'' ?res @ ''/'' @ join_with ''/'' ((u @ CHR ''-'' # h) # ?ks)"
          using False by (intro join_with_append) simp_all
        then show ?thesis by simp
      qed
      from n t ne show ?thesis by auto
    qed
    show ?thesis
    proof (cases "hd d = CHR ''/''")
      case True
      obtain t where t: "normalizeString ?p False =
           (if foldl (norm_step False) [] (split_on CHR ''/'' d) = [] then []
            else join_with ''/'' (foldl (norm_step False) [] (split_on CHR ''/'' d)) @ ''/'') @ u @ t"
        and ne: "normalizeString ?p False \<noteq> []"
        using q [of False] by blast
      have "normalize_path ?p = ''/'' @ normalizeString ?p False"
        using True ne lap by (simp add: normalize_path_def hd Let_def)
      also have "\<dots> = dir_prefix d @ u @ t"
        using True False t by (simp add: dir_prefix_def Let_def)
      finally show ?thesis using j by auto
    next
      case nabs: False
      obtain t where t: "normalizeString ?p True =
           (if foldl (norm_step True) [] (split_on CHR ''/'' d) = [] then []
            else join_with ''/'' (foldl (norm_step True) [] (split_on CHR ''/'' d)) @ ''/'') @ u @ t"
        and ne: "normalizeString ?p True \<noteq> []"
        using q [of True] by blast
      have "normalize_path ?p = normalizeString ?p True"
        using nabs ne lap by (simp add: normalize_path_def hd Let_def)
      also have "\<dots> = dir_prefix d @ u @ t"
        using nabs False t by (simp add: dir_prefix_def Let_def)
      finally show ?thesis using j by auto
    qed
  qed
qed

section \<open>What one request does\<close>

text \<open>
  \<open>runRemotionRender\<close> and the handler, branch by branch: what is returned, and what the
  world holds afterwards.
\<close>

lemma includes_lower_Nil: "\<not> includes_str (toLowerCase []) ''error''"
  by (simp add: toLowerCase_def)

lemma includes_str_suffix: "includes_str (a @ s) s"
proof -
  have "a @ s = a @ s @ []" by simp
  then show ?thesis unfolding includes_str_iff by blast
qed

lemma start_simps [simp]:
  "fs (start files) = files" "responses (start files) = []" "execs (start files) = []"
  "downloads (start files) = []" "unlinks (start files) = []" "logged (start files) = []"
  by (simp_all add: start_def)

lemma runRemotionRender_fst:
  "fst (runRemotionRender cfg e cid p props w) =
     (case exec_run e (render_command cfg cid p) (remotionProjectDir cfg) (fs w) of
        None \<Rightarrow> Inl (start_error e (render_command cfg cid p) (remotionProjectDir cfg) (fs w))
      | Some pr \<Rightarrow>
          if \<not> within_buffer e pr then Inl (overflow_error e pr)
          else if ending pr \<noteq> Exited 0 then Inl (exec_failed (render_command cfg cid p) pr)
          else if includes_str (toLowerCase (p_stderr pr)) ''error''
          then Inl (stderr_failed (p_stderr pr))
          else Inr True)"
  using includes_lower_Nil
  by (auto simp: runRemotionRender_def execPromise_def rethrow_def exec_run_def start_error_def
      within_buffer_def overflow_error_def exec_failed_def stderr_failed_def Let_def
      split: sum.splits)

lemma runRemotionRender_snd:
  "snd (runRemotionRender cfg e cid p props w) = w1 \<Longrightarrow>
     fs w1 = (case exec_run e (render_command cfg cid p) (remotionProjectDir cfg) (fs w) of
                None \<Rightarrow> fs w | Some pr \<Rightarrow> fs_after pr) \<and>
     responses w1 = responses w \<and>
     execs w1 = execs w @
       (case exec_run e (render_command cfg cid p) (remotionProjectDir cfg) (fs w) of
          None \<Rightarrow> [] | Some pr \<Rightarrow> [(render_command cfg cid p, remotionProjectDir cfg)]) \<and>
     downloads w1 = downloads w \<and>
     unlinks w1 = unlinks w"
  by (auto simp: runRemotionRender_def execPromise_def rethrow_def log_def exec_run_def Let_def
      split: if_splits sum.splits)

lemma runRemotionRender_log:
  "logged (snd (runRemotionRender cfg e cid p props w)) =
     logged w @
     (case exec_run e (render_command cfg cid p) (remotionProjectDir cfg) (fs w) of
        None \<Rightarrow> []
      | Some pr \<Rightarrow>
          if within_buffer e pr \<and> ending pr = Exited 0 \<and> p_stderr pr \<noteq> []
          then [WarnStderr (p_stderr pr)] else []) @
     (case fst (runRemotionRender cfg e cid p props w) of
        Inl err \<Rightarrow> [ErrExecuting (message err), ErrStderr (e_stderr err), ErrStdout (e_stdout err)]
      | Inr ok \<Rightarrow> [])"
  by (auto simp: runRemotionRender_def execPromise_def rethrow_def log_def exec_run_def
      within_buffer_def Let_def split: sum.splits)

lemma render_outcome_eq:
  "render_outcome cfg e req files =
     (case request_run cfg e req files of
        None \<Rightarrow> Inl (start_error e (request_command cfg e req) (remotionProjectDir cfg) files)
      | Some pr \<Rightarrow>
          if \<not> within_buffer e pr then Inl (overflow_error e pr)
          else if ending pr \<noteq> Exited 0 then Inl (exec_failed (request_command cfg e req) pr)
          else if includes_str (toLowerCase (p_stderr pr)) ''error''
          then Inl (stderr_failed (p_stderr pr))
          else Inr True)"
  by (auto simp: render_outcome_def runRemotionRender_fst request_run_def request_command_def
      split: option.splits)

lemma disk_after_render_eq:
  "disk_after_render cfg e req files =
     (case request_run cfg e req files of None \<Rightarrow> files | Some pr \<Rightarrow> fs_after pr)"
  using runRemotionRender_snd [OF refl, of cfg e "request_cid req" "request_path cfg e req"
      "body_inputProps req" "start files"]
  by (simp add: disk_after_render_def request_run_def request_command_def cong: option.case_cong)

lemma render_outcome_True: "render_outcome cfg e req files = Inr b \<Longrightarrow> b"
  by (auto simp: render_outcome_eq split: option.splits if_splits)

lemma request_world:
  assumes "runRemotionRender cfg e (request_cid req) (request_path cfg e req) (body_inputProps req)
             (start files) = (r, w1)"
  shows "r = render_outcome cfg e req files" and "after_render w1 cfg e req files"
  using assms runRemotionRender_snd [of cfg e "request_cid req" "request_path cfg e req"
      "body_inputProps req" "start files" w1]
  by (simp_all add: render_outcome_def disk_after_render_def after_render_def request_run_def
      request_command_def cong: option.case_cong)

lemma serve_failed_world:
  assumes "truthy_str (body_compositionId req)"
      and "render_outcome cfg e req files = Inl err"
  shows "\<exists>w1. serve cfg e req files = render_failed e (request_path cfg e req) err w1 \<and>
              after_render w1 cfg e req files"
proof -
  obtain r w1 where rw: "runRemotionRender cfg e (request_cid req) (request_path cfg e req)
      (body_inputProps req) (start files) = (r, w1)"
    by (cases "runRemotionRender cfg e (request_cid req) (request_path cfg e req)
      (body_inputProps req) (start files)") auto
  note facts = request_world [OF rw]
  from facts(1) assms(2) have r: "r = Inl err" by simp
  have "serve cfg e req files = render_failed e (request_path cfg e req) err w1"
    using assms(1) rw r
    by (simp add: serve_def render_and_download_def request_cid_def request_path_def Let_def)
  with facts show ?thesis by auto
qed

lemma serve_ok_world:
  assumes "truthy_str (body_compositionId req)"
      and "render_outcome cfg e req files = Inr b"
  shows "\<exists>w1. serve cfg e req files =
           (case res_download e (request_path cfg e req) (finalDownloadName e (request_cid req)) w1 of
              (err, w2) \<Rightarrow> after_download e (request_path cfg e req) err w2) \<and>
              after_render w1 cfg e req files"
proof -
  obtain r w1 where rw: "runRemotionRender cfg e (request_cid req) (request_path cfg e req)
      (body_inputProps req) (start files) = (r, w1)"
    by (cases "runRemotionRender cfg e (request_cid req) (request_path cfg e req)
      (body_inputProps req) (start files)") auto
  note facts = request_world [OF rw]
  from facts(1) assms(2) have r: "r = Inr b" by simp
  have "serve cfg e req files =
           (case res_download e (request_path cfg e req) (finalDownloadName e (request_cid req)) w1 of
              (err, w2) \<Rightarrow> after_download e (request_path cfg e req) err w2)"
    using assms(1) rw r
    by (simp add: serve_def render_and_download_def request_cid_def request_path_def Let_def)
  with facts show ?thesis by auto
qed

lemma serve_failed:
  assumes "truthy_str (body_compositionId req)"
      and "render_outcome cfg e req files = Inl err"
  shows "responses (serve cfg e req files) = [JsonResponse 500 (render_failed_body (message err))]"
    and "unlinks (serve cfg e req files) =
           (if request_path cfg e req \<in> disk_after_render cfg e req files
            then [request_path cfg e req] else [])"
    and "fs (serve cfg e req files) =
           (if unlink_ok e then disk_after_render cfg e req files - {request_path cfg e req}
            else disk_after_render cfg e req files)"
    and "downloads (serve cfg e req files) = []"
    and "execs (serve cfg e req files) =
           (case request_run cfg e req files of
              None \<Rightarrow> []
            | Some pr \<Rightarrow> [(request_command cfg e req, remotionProjectDir cfg)])"
    and "request_path cfg e req \<in> disk_after_render cfg e req files \<Longrightarrow> \<not> unlink_ok e \<Longrightarrow>
           ErrDeletingAfterFailure (request_path cfg e req) \<in> set (logged (serve cfg e req files))"
proof -
  obtain w1 where w1: "serve cfg e req files = render_failed e (request_path cfg e req) err w1"
      "after_render w1 cfg e req files"
    using serve_failed_world [OF assms] by blast
  then show
    "responses (serve cfg e req files) = [JsonResponse 500 (render_failed_body (message err))]"
    "unlinks (serve cfg e req files) =
           (if request_path cfg e req \<in> disk_after_render cfg e req files
            then [request_path cfg e req] else [])"
    "fs (serve cfg e req files) =
           (if unlink_ok e then disk_after_render cfg e req files - {request_path cfg e req}
            else disk_after_render cfg e req files)"
    "downloads (serve cfg e req files) = []"
    "execs (serve cfg e req files) =
           (case request_run cfg e req files of
              None \<Rightarrow> []
            | Some pr \<Rightarrow> [(request_command cfg e req, remotionProjectDir cfg)])"
    "request_path cfg e req \<in> disk_after_render cfg e req files \<Longrightarrow> \<not> unlink_ok e \<Longrightarrow>
           ErrDeletingAfterFailure (request_path cfg e req) \<in> set (logged (serve cfg e req files))"
    by (auto simp: after_render_def render_failed_def unlink_def log_def res_json_def
        headersSent_def Let_def)
qed

lemma serve_ok:
  assumes "truthy_str (body_compositionId req)"
      and "render_outcome cfg e req files = Inr b"
  shows "responses (serve cfg e req files) =
           (if request_path cfg e req \<in> disk_after_render cfg e req files \<and>
               \<not> sender_refuses e (request_path cfg e req)
            then (case transport e of
                    Delivered \<Rightarrow>
                      [FileResponse (request_path cfg e req)
                         (basename (finalDownloadName e (request_cid req))) True]
                  | FailedBeforeHeaders \<Rightarrow> [JsonResponse 500 send_failed_body]
                  | FailedAfterHeaders \<Rightarrow>
                      [FileResponse (request_path cfg e req)
                         (basename (finalDownloadName e (request_cid req))) False])
            else [JsonResponse 500 send_failed_body])"
    and "unlinks (serve cfg e req files) = [request_path cfg e req]"
    and "fs (serve cfg e req files) =
           (if unlink_ok e then disk_after_render cfg e req files - {request_path cfg e req}
            else disk_after_render cfg e req files)"
    and "downloads (serve cfg e req files) =
           [(request_path cfg e req, finalDownloadName e (request_cid req))]"
    and "execs (serve cfg e req files) =
           (case request_run cfg e req files of
              None \<Rightarrow> []
            | Some pr \<Rightarrow> [(request_command cfg e req, remotionProjectDir cfg)])"
    and "request_path cfg e req \<notin> disk_after_render cfg e req files \<or> \<not> unlink_ok e \<Longrightarrow>
           ErrDeleting (request_path cfg e req) \<in> set (logged (serve cfg e req files))"
    and "request_path cfg e req \<notin> disk_after_render cfg e req files \<or>
         sender_refuses e (request_path cfg e req) \<or> transport e \<noteq> Delivered \<Longrightarrow>
           ErrSending (request_path cfg e req) \<in> set (logged (serve cfg e req files))"
proof -
  obtain w1 where w1: "serve cfg e req files =
           (case res_download e (request_path cfg e req) (finalDownloadName e (request_cid req)) w1 of
              (err, w2) \<Rightarrow> after_download e (request_path cfg e req) err w2)"
      "after_render w1 cfg e req files"
    using serve_ok_world [OF assms] by blast
  note defs = after_render_def res_download_def after_download_def unlink_def log_def
        res_json_def headersSent_def Let_def
  from w1 show "responses (serve cfg e req files) =
           (if request_path cfg e req \<in> disk_after_render cfg e req files \<and>
               \<not> sender_refuses e (request_path cfg e req)
            then (case transport e of
                    Delivered \<Rightarrow>
                      [FileResponse (request_path cfg e req)
                         (basename (finalDownloadName e (request_cid req))) True]
                  | FailedBeforeHeaders \<Rightarrow> [JsonResponse 500 send_failed_body]
                  | FailedAfterHeaders \<Rightarrow>
                      [FileResponse (request_path cfg e req)
                         (basename (finalDownloadName e (request_cid req))) False])
            else [JsonResponse 500 send_failed_body])"
    by (auto simp: defs split: delivery.splits)
  from w1 show "unlinks (serve cfg e req files) = [request_path cfg e req]"
    by (auto simp: defs split: delivery.splits)
  from w1 show "fs (serve cfg e req files) =
           (if unlink_ok e then disk_after_render cfg e req files - {request_path cfg e req}
            else disk_after_render cfg e req files)"
    by (auto simp: defs split: delivery.splits)
  from w1 show "downloads (serve cfg e req files) =
           [(request_path cfg e req, finalDownloadName e (request_cid req))]"
    by (auto simp: defs split: delivery.splits)
  from w1 show "execs (serve cfg e req files) =
           (case request_run cfg e req files of
              None \<Rightarrow> []
            | Some pr \<Rightarrow> [(request_command cfg e req, remotionProjectDir cfg)])"
    by (auto simp: defs split: delivery.splits)
  from w1 show "request_path cfg e req \<notin> disk_after_render cfg e req files \<or> \<not> unlink_ok e \<Longrightarrow>
           ErrDeleting (request_path cfg e req) \<in> set (logged (serve cfg e req files))"
    by (auto simp: defs split: delivery.splits)
  from w1 show "request_path cfg e req \<notin> disk_after_render cfg e req files \<or>
         sender_refuses e (request_path cfg e req) \<or> transport e \<noteq> Delivered \<Longrightarrow>
           ErrSending (request_path cfg e req) \<in> set (logged (serve cfg e req files))"
    by (auto simp: defs split: delivery.splits)
qed

lemma bodies_differ: "send_failed_body \<noteq> render_failed_body msg"
  by (simp add: send_failed_body_def render_failed_body_def)

lemma serve_execs:
  assumes "truthy_str (body_compositionId req)"
  shows "execs (serve cfg e req files) =
           (case request_run cfg e req files of
              None \<Rightarrow> []
            | Some pr \<Rightarrow> [(request_command cfg e req, remotionProjectDir cfg)])"
proof (cases "render_outcome cfg e req files")
  case (Inl err)
  from serve_failed(5) [OF assms Inl] show ?thesis .
next
  case (Inr ok)
  from serve_ok(5) [OF assms Inr] show ?thesis .
qed

lemma serve_unlinks:
  assumes "truthy_str (body_compositionId req)"
  shows "set (unlinks (serve cfg e req files)) \<subseteq> {request_path cfg e req}"
proof (cases "render_outcome cfg e req files")
  case (Inl err)
  from serve_failed(2) [OF assms Inl] show ?thesis by (auto split: if_splits)
next
  case (Inr ok)
  from serve_ok(2) [OF assms Inr] show ?thesis by simp
qed

lemma serve_downloads:
  assumes "truthy_str (body_compositionId req)"
  shows "set (map fst (downloads (serve cfg e req files))) \<subseteq> {request_path cfg e req}"
proof (cases "render_outcome cfg e req files")
  case (Inl err)
  from serve_failed(4) [OF assms Inl] show ?thesis by simp
next
  case (Inr ok)
  from serve_ok(4) [OF assms Inr] show ?thesis by simp
qed

lemma serve_fs:
  assumes "truthy_str (body_compositionId req)"
  shows "fs (serve cfg e req files) =
           (if unlink_ok e then disk_after_render cfg e req files - {request_path cfg e req}
            else disk_after_render cfg e req files)"
proof (cases "render_outcome cfg e req files")
  case (Inl err)
  from serve_failed(3) [OF assms Inl] show ?thesis .
next
  case (Inr ok)
  from serve_ok(3) [OF assms Inr] show ?thesis .
qed

lemma serve_not_400:
  assumes "truthy_str (body_compositionId req)"
  shows "responses (serve cfg e req files) \<noteq> [JsonResponse 400 body]"
proof (cases "render_outcome cfg e req files")
  case (Inl err)
  from serve_failed(1) [OF assms Inl] show ?thesis by simp
next
  case (Inr ok)
  from serve_ok(1) [OF assms Inr] show ?thesis by (auto split: if_splits delivery.splits)
qed

lemma request_path_Some:
  "body_compositionId req = Some cid \<Longrightarrow>
   request_path cfg e req = path_join (outputDir cfg) (uuid e @ ''-'' @ cid @ ''.mp4'')"
  by (simp add: request_path_def request_cid_def template_str_def outputPath_of_def uniqueFilename_def)

lemma plain_unique_filename:
  assumes "CHR ''/'' \<notin> set (uuid e)" and "CHR ''/'' \<notin> set cid"
  shows "plain_segments (uniqueFilename e cid)"
  using assms by (intro plain_segments_no_slash) (auto simp: uniqueFilename_def)

text \<open>Neither the outcome of the deletion nor the clock reaches the renderer or the path.\<close>

lemma exec_unlink_ok:
  "exec_run (e\<lparr>unlink_ok := b\<rparr>) c d f = exec_run e c d f"
  "start_error (e\<lparr>unlink_ok := b\<rparr>) c d f = start_error e c d f"
  "within_buffer (e\<lparr>unlink_ok := b\<rparr>) pr = within_buffer e pr"
  "overflow_error (e\<lparr>unlink_ok := b\<rparr>) pr = overflow_error e pr"
  by (simp_all add: exec_run_def start_error_def within_buffer_def overflow_error_def)

lemma exec_now:
  "exec_run (e\<lparr>now := t\<rparr>) c d f = exec_run e c d f"
  "start_error (e\<lparr>now := t\<rparr>) c d f = start_error e c d f"
  "within_buffer (e\<lparr>now := t\<rparr>) pr = within_buffer e pr"
  "overflow_error (e\<lparr>now := t\<rparr>) pr = overflow_error e pr"
  by (simp_all add: exec_run_def start_error_def within_buffer_def overflow_error_def)

lemma unlink_ok_irrelevant:
  "request_path cfg (e\<lparr>unlink_ok := b\<rparr>) req = request_path cfg e req"
  "request_command cfg (e\<lparr>unlink_ok := b\<rparr>) req = request_command cfg e req"
  "request_run cfg (e\<lparr>unlink_ok := b\<rparr>) req files = request_run cfg e req files"
  "render_outcome cfg (e\<lparr>unlink_ok := b\<rparr>) req files = render_outcome cfg e req files"
  "disk_after_render cfg (e\<lparr>unlink_ok := b\<rparr>) req files = disk_after_render cfg e req files"
  "finalDownloadName (e\<lparr>unlink_ok := b\<rparr>) c = finalDownloadName e c"
  "sender_refuses (e\<lparr>unlink_ok := b\<rparr>) p = sender_refuses e p"
proof -
  show p: "request_path cfg (e\<lparr>unlink_ok := b\<rparr>) req = request_path cfg e req"
    by (simp add: request_path_def outputPath_of_def uniqueFilename_def)
  show c: "request_command cfg (e\<lparr>unlink_ok := b\<rparr>) req = request_command cfg e req"
    by (simp add: request_command_def p)
  show r: "request_run cfg (e\<lparr>unlink_ok := b\<rparr>) req files = request_run cfg e req files"
    by (simp add: request_run_def c exec_unlink_ok)
  show "render_outcome cfg (e\<lparr>unlink_ok := b\<rparr>) req files = render_outcome cfg e req files"
    by (auto simp: render_outcome_eq r c exec_unlink_ok split: option.splits)
  show "disk_after_render cfg (e\<lparr>unlink_ok := b\<rparr>) req files = disk_after_render cfg e req files"
    by (simp add: disk_after_render_eq r)
  show "finalDownloadName (e\<lparr>unlink_ok := b\<rparr>) c = finalDownloadName e c" for c
    by (simp add: finalDownloadName_def)
  show "sender_refuses (e\<lparr>unlink_ok := b\<rparr>) p = sender_refuses e p"
    by (simp add: sender_refuses_def)
qed

lemma now_irrelevant:
  "request_path cfg (e\<lparr>now := t\<rparr>) req = request_path cfg e req"
  "request_command cfg (e\<lparr>now := t\<rparr>) req = request_command cfg e req"
  "request_run cfg (e\<lparr>now := t\<rparr>) req files = request_run cfg e req files"
  "render_outcome cfg (e\<lparr>now := t\<rparr>) req files = render_outcome cfg e req files"
  "disk_after_render cfg (e\<lparr>now := t\<rparr>) req files = disk_after_render cfg e req files"
proof -
  show p: "request_path cfg (e\<lparr>now := t\<rparr>) req = request_path cfg e req"
    by (simp add: request_path_def outputPath_of_def uniqueFilename_def)
  show c: "request_command cfg (e\<lparr>now := t\<rparr>) req = request_command cfg e req"
    by (simp add: request_command_def p)
  show r: "request_run cfg (e\<lparr>now := t\<rparr>) req files = request_run cfg e req files"
    by (simp add: request_run_def c exec_now)
  show "render_outcome cfg (e\<lparr>now := t\<rparr>) req files = render_outcome cfg e req files"
    by (auto simp: render_outcome_eq r c exec_now split: option.splits)
  show "disk_after_render cfg (e\<lparr>now := t\<rparr>) req files = disk_after_render cfg e req files"
    by (simp add: disk_after_render_eq r)
qed

text \<open>The input properties reach nothing at all: \<open>runRemotionRender\<close> never reads them again.\<close>

lemma inputProps_ignored:
  "serve cfg e (req\<lparr>body_inputProps := a\<rparr>) files = serve cfg e (req\<lparr>body_inputProps := b\<rparr>) files"
  by (simp add: serve_def render_and_download_def runRemotionRender_def Let_def)

section \<open>Facts about the example inputs\<close>

lemma includes_str_length: "includes_str s t \<Longrightarrow> length t \<le> length s"
  by (auto simp: includes_str_iff)

lemma truthy_intro: "truthy_str (body_compositionId req_intro)"
  by (simp add: truthy_str_def req_intro_def)

lemma request_path_intro:
  "uuid e = uuid_a \<Longrightarrow> body_compositionId req = Some ''intro'' \<Longrightarrow>
   request_path cfg_demo e req = path_intro_a"
  by (simp add: request_path_def request_cid_def template_str_def outputPath_of_def
      cfg_demo_def uniqueFilename_def uuid_a_def path_intro_a_def path_join_def
      normalize_path_def normalizeString_def norm_step_def)

lemma entry_point_demo: "remotionEntryPoint cfg_demo = ''/srv/frontend/src/remotion/index.js''"
  by (simp add: remotionEntryPoint_def cfg_demo_def path_join_def normalize_path_def
      normalizeString_def norm_step_def)

lemma project_dir_demo: "remotionProjectDir cfg_demo = ''/srv/frontend''"
  by (simp add: cfg_demo_def)

lemma command_intro:
  "uuid e = uuid_a \<Longrightarrow> body_compositionId req = Some ''intro'' \<Longrightarrow>
   request_command cfg_demo e req =
     ''npx remotion render '' @ dq @ ''/srv/frontend/src/remotion/index.js'' @ dq @ '' intro '' @
       dq @ ''/srv/backend/output/3f2b8c1e-5d4a-4c7b-9e0f-1a2b3c4d5e6f-intro.mp4'' @ dq"
  using request_path_intro [of e req]
  by (simp add: request_command_def render_command_def entry_point_demo request_cid_def
      template_str_def path_intro_a_def)

lemma request_run_stub:
  assumes "spawn e = renderer_stub code out err made"
      and "CHR 0x00 \<notin> set (request_command cfg e req)"
      and "CHR 0x00 \<notin> set (remotionProjectDir cfg)"
  shows "request_run cfg e req files =
           Some \<lparr>ending = Exited code, p_stdout = out, p_stderr = err, fs_after = files \<union> made\<rparr>"
  using assms by (simp add: request_run_def exec_run_def renderer_stub_def)

lemma run_intro:
  assumes "uuid e = uuid_a" and "body_compositionId req = Some ''intro''"
      and "spawn e = renderer_stub code out err made"
  shows "request_run cfg_demo e req files =
           Some \<lparr>ending = Exited code, p_stdout = out, p_stderr = err, fs_after = files \<union> made\<rparr>"
proof (rule request_run_stub [OF assms(3)])
  show "CHR 0x00 \<notin> set (request_command cfg_demo e req)"
    by (simp add: command_intro [OF assms(1,2)] dq_def)
  show "CHR 0x00 \<notin> set (remotionProjectDir cfg_demo)"
    by (simp add: project_dir_demo)
qed

lemma progress_is_no_signature: "\<not> includes_str (toLowerCase ''Rendered 30/30 frames'') ''error''"
  by (simp add: toLowerCase_def lower_char_def)

lemma path_intro_sent: "\<not> sender_refuses e path_intro_a"
  by (simp add: sender_refuses_def up_path_def path_intro_a_def normalize_path_def normalizeString_def
      norm_step_def dot_file_def)

lemma backslash_dots_refused: "sender_refuses e path_backslashes"
  by (simp add: sender_refuses_def up_path_def path_backslashes_def)

lemma dot_directory_refused:
  "sender_refuses e path_dot_directory \<longleftrightarrow> every_segment_checked e"
  by (simp add: sender_refuses_def up_path_def path_dot_directory_def normalize_path_def
      normalizeString_def norm_step_def dot_file_def)

lemma env_demo_simps:
  "uuid env_demo = uuid_a" "unlink_ok env_demo" "transport env_demo = Delivered"
  "max_buffer env_demo = 1048576"
  "spawn env_demo = renderer_stub 0 [] ''Rendered 30/30 frames'' {path_intro_a}"
  by (simp_all add: env_demo_def)

lemma arg_error_demo: "arg_error env_demo v = ''The argument must be a string without null bytes''"
  by (simp add: env_demo_def)

lemma spawn_noshell: "spawn env_noshell command cwd files = Inl ''spawn /bin/sh ENOENT''"
  by (simp add: env_noshell_def)

lemma intro_id: "body_compositionId req_intro = Some ''intro''"
  by (simp add: req_intro_def)

text \<open>The render of the first example succeeds in every environment that keeps its renderer.\<close>

lemma demo_render_ok:
  assumes "uuid e = uuid_a" and "max_buffer e = 1048576"
      and "spawn e = renderer_stub 0 [] ''Rendered 30/30 frames'' {path_intro_a}"
  shows "render_outcome cfg_demo e req_intro {} = Inr True"
    and "disk_after_render cfg_demo e req_intro {} = {path_intro_a}"
    and "request_path cfg_demo e req_intro = path_intro_a"
  using progress_is_no_signature assms(2)
  by (simp_all add: render_outcome_eq disk_after_render_eq run_intro [OF assms(1) intro_id assms(3)]
      request_path_intro [OF assms(1) intro_id] within_buffer_def)

lemma command_clean:
  assumes "CHR 0x00 \<notin> set (remotionEntryPoint cfg)"
      and "CHR 0x00 \<notin> set (request_cid req)"
      and "CHR 0x00 \<notin> set (request_path cfg e req)"
  shows "CHR 0x00 \<notin> set (request_command cfg e req)"
  using assms by (simp add: request_command_def render_command_def dq_def)

lemma id_in_command:
  "body_compositionId req = Some cid \<Longrightarrow> set cid \<subseteq> set (request_command cfg e req)"
  by (auto simp: request_command_def render_command_def request_cid_def template_str_def)

lemma request_command_Some:
  "body_compositionId req = Some cid \<Longrightarrow>
   request_command cfg e req =
     ''npx remotion render '' @ dq @ remotionEntryPoint cfg @ dq @ '' '' @ cid @ '' '' @
       dq @ request_path cfg e req @ dq"
  by (simp add: request_command_def render_command_def request_cid_def template_str_def)

section \<open>Cleanup\<close>

text \<open>
  C1, as the code has it. For a request that reaches the renderer: after a successful
  render the deletion of the request's path is attempted, however the delivery went; after
  a failed render that left a file at the path the deletion is attempted too. Whether the
  deletion works changes no response. A file that is still at the path at the end means the
  deletion failed, and that failure is in the log. When the system allows the deletion, no
  file is at the path once the request is complete. The claim promises the last point without
  the condition; the example after the witness is a request after which the file is still
  there.
\<close>

theorem cleanup_on_every_exit_path:
  assumes "truthy_str (body_compositionId req)"
  shows "(render_outcome cfg e req files = Inr True \<longrightarrow>
            unlinks (serve cfg e req files) = [request_path cfg e req]) \<and>
         (\<forall>err. render_outcome cfg e req files = Inl err \<and>
                request_path cfg e req \<in> disk_after_render cfg e req files \<longrightarrow>
            unlinks (serve cfg e req files) = [request_path cfg e req]) \<and>
         (\<forall>b. responses (serve cfg (e\<lparr>unlink_ok := b\<rparr>) req files) =
              responses (serve cfg e req files)) \<and>
         (request_path cfg e req \<in> fs (serve cfg e req files) \<longrightarrow>
            ErrDeleting (request_path cfg e req) \<in> set (logged (serve cfg e req files)) \<or>
            ErrDeletingAfterFailure (request_path cfg e req) \<in> set (logged (serve cfg e req files))) \<and>
         (unlink_ok e \<longrightarrow> request_path cfg e req \<notin> fs (serve cfg e req files))"
proof (cases "render_outcome cfg e req files")
  case (Inl err)
  note f = serve_failed [OF assms Inl]
  have "render_outcome cfg (e\<lparr>unlink_ok := b\<rparr>) req files = Inl err" for b
    using Inl by (simp add: unlink_ok_irrelevant)
  from serve_failed(1) [OF assms this] f(1)
  have indep: "responses (serve cfg (e\<lparr>unlink_ok := b\<rparr>) req files) =
      responses (serve cfg e req files)" for b
    by simp
  have logd: "ErrDeletingAfterFailure (request_path cfg e req) \<in> set (logged (serve cfg e req files))"
    if "request_path cfg e req \<in> fs (serve cfg e req files)"
    using that f(3) f(6) by (cases "unlink_ok e") auto
  have gone: "request_path cfg e req \<notin> fs (serve cfg e req files)" if "unlink_ok e"
    using that f(3) by simp
  show ?thesis using Inl f(2) indep logd gone by auto
next
  case (Inr ok)
  note f = serve_ok [OF assms Inr]
  have o: "render_outcome cfg (e\<lparr>unlink_ok := b\<rparr>) req files = Inr ok" for b
    using Inr by (simp add: unlink_ok_irrelevant)
  have indep: "responses (serve cfg (e\<lparr>unlink_ok := b\<rparr>) req files) =
      responses (serve cfg e req files)" for b
    using serve_ok(1) [OF assms o [of b]] f(1)
    by (simp add: unlink_ok_irrelevant split: delivery.splits)
  have logd: "ErrDeleting (request_path cfg e req) \<in> set (logged (serve cfg e req files))"
    if "request_path cfg e req \<in> fs (serve cfg e req files)"
    using that f(3) f(6) by (cases "unlink_ok e") auto
  have gone: "request_path cfg e req \<notin> fs (serve cfg e req files)" if "unlink_ok e"
    using that f(3) by simp
  show ?thesis using Inr f(2) indep logd gone by auto
qed

theorem cleanup_on_every_exit_path_witness:
  "truthy_str (body_compositionId req_intro) \<and>
   render_outcome cfg_demo env_demo req_intro {} = Inr True \<and>
   unlinks (serve cfg_demo env_demo req_intro {}) = [path_intro_a] \<and>
   path_intro_a \<notin> fs (serve cfg_demo env_demo req_intro {}) \<and>
   responses (serve cfg_demo env_locked req_intro {}) = responses (serve cfg_demo env_demo req_intro {})"
proof -
  note d = demo_render_ok [OF env_demo_simps(1,4,5)]
  show ?thesis
    using cleanup_on_every_exit_path [OF truthy_intro, of cfg_demo env_demo "{}"] d
      env_demo_simps(2) truthy_intro
    by (simp add: env_locked_def)
qed

text \<open>
  The renderer writes the file and succeeds, the file is delivered, the deletion is attempted
  and fails: the file stays in the output directory.
\<close>

theorem artifact_remains_when_unlink_fails:
  "render_outcome cfg_demo env_locked req_intro {} = Inr True \<and>
   request_path cfg_demo env_locked req_intro = path_intro_a \<and>
   unlinks (serve cfg_demo env_locked req_intro {}) = [path_intro_a] \<and>
   path_intro_a \<in> fs (serve cfg_demo env_locked req_intro {})"
proof -
  have d: "render_outcome cfg_demo env_locked req_intro {} = Inr True"
    "disk_after_render cfg_demo env_locked req_intro {} = {path_intro_a}"
    "request_path cfg_demo env_locked req_intro = path_intro_a"
    by (rule demo_render_ok; simp add: env_locked_def env_demo_def)+
  have u: "\<not> unlink_ok env_locked" by (simp add: env_locked_def)
  show ?thesis
    using serve_ok(2,3) [OF truthy_intro d(1)] d u by simp
qed

section \<open>Props on the command line\<close>

text \<open>
  C2. The claim has the serialised and escaped input properties passed to the renderer. The
  code computes that string and then builds the command without it. For the request
  \<^verbatim>\<open>{compositionId: "intro", inputProps: {title: "Hello"}}\<close> the escaped string is
  \<^verbatim>\<open>{"title":"Hello"}\<close>, the command is the entry point, the composition id and the
  output path, the word \<^verbatim>\<open>Hello\<close> is nowhere in it, and the same request without input
  properties is served in exactly the same way.
\<close>

theorem inputProps_never_reach_renderer:
  "escape_single_quotes (stringify (props_or_empty (body_inputProps req_intro))) =
     ''{'' @ dq @ ''title'' @ dq @ '':'' @ dq @ ''Hello'' @ dq @ ''}'' \<and>
   execs (serve cfg_demo env_demo req_intro {}) =
     [(''npx remotion render '' @ dq @ ''/srv/frontend/src/remotion/index.js'' @ dq @ '' intro '' @
         dq @ ''/srv/backend/output/3f2b8c1e-5d4a-4c7b-9e0f-1a2b3c4d5e6f-intro.mp4'' @ dq,
       ''/srv/frontend'')] \<and>
   \<not> includes_str
       (''npx remotion render '' @ dq @ ''/srv/frontend/src/remotion/index.js'' @ dq @ '' intro '' @
         dq @ ''/srv/backend/output/3f2b8c1e-5d4a-4c7b-9e0f-1a2b3c4d5e6f-intro.mp4'' @ dq)
       ''Hello'' \<and>
   serve cfg_demo env_demo (req_intro\<lparr>body_inputProps := None\<rparr>) {} = serve cfg_demo env_demo req_intro {}"
proof -
  have s: "escape_single_quotes (stringify (props_or_empty (body_inputProps req_intro))) =
     ''{'' @ dq @ ''title'' @ dq @ '':'' @ dq @ ''Hello'' @ dq @ ''}''"
    by (simp add: req_intro_def props_or_empty_def truthy_json_def quote_json_def quote_char_def
        escape_single_quotes_def escape_quote_def dq_def)
  have r: "request_run cfg_demo env_demo req_intro {} =
      Some \<lparr>ending = Exited 0, p_stdout = [], p_stderr = ''Rendered 30/30 frames'',
            fs_after = {} \<union> {path_intro_a}\<rparr>"
    by (rule run_intro [OF env_demo_simps(1) intro_id env_demo_simps(5)])
  have x: "execs (serve cfg_demo env_demo req_intro {}) =
     [(''npx remotion render '' @ dq @ ''/srv/frontend/src/remotion/index.js'' @ dq @ '' intro '' @
         dq @ ''/srv/backend/output/3f2b8c1e-5d4a-4c7b-9e0f-1a2b3c4d5e6f-intro.mp4'' @ dq,
       ''/srv/frontend'')]"
    using serve_execs [OF truthy_intro, of cfg_demo env_demo "{}"]
    by (simp add: r command_intro [OF env_demo_simps(1) intro_id] project_dir_demo)
  have n: "\<not> includes_str
       (''npx remotion render '' @ dq @ ''/srv/frontend/src/remotion/index.js'' @ dq @ '' intro '' @
         dq @ ''/srv/backend/output/3f2b8c1e-5d4a-4c7b-9e0f-1a2b3c4d5e6f-intro.mp4'' @ dq)
       ''Hello''"
    by (simp add: dq_def)
  have g: "serve cfg_demo env_demo (req_intro\<lparr>body_inputProps := None\<rparr>) {} =
      serve cfg_demo env_demo req_intro {}"
    using inputProps_ignored [where cfg = cfg_demo and e = env_demo and req = req_intro and a = None
        and files = "{}" and b = "body_inputProps req_intro"]
    by simp
  from s x n g show ?thesis by blast
qed

section \<open>Classification of the renderer's outcome\<close>




section \<open>Validation\<close>

text \<open>
  C4. A request whose compositionId is missing or empty is answered with status 400 and
  nothing else happens: the shell is given no command, no download and no deletion is
  attempted, nothing is logged, and the files on disk are the ones that were there. The
  answer depends neither on the token nor on the clock, which the handler has not asked for
  yet.
\<close>

theorem missing_compositionId_rejected:
  assumes "body_compositionId req = None \<or> body_compositionId req = Some []"
  shows "serve cfg e req files =
           \<lparr>fs = files,
            responses = [JsonResponse 400 [(''message'', ''compositionId is required.'')]],
            execs = [], downloads = [], unlinks = [], logged = []\<rparr>"
  using assms
  by (auto simp: serve_def render_and_download_def truthy_str_def res_json_def start_def)

theorem missing_compositionId_rejected_witness:
  "body_compositionId req_missing = None \<and>
   responses (serve cfg_demo env_demo req_missing {}) =
     [JsonResponse 400 [(''message'', ''compositionId is required.'')]] \<and>
   fs (serve cfg_demo env_demo req_missing {}) = {} \<and>
   execs (serve cfg_demo env_demo req_missing {}) = []"
proof -
  have h: "body_compositionId req_missing = None \<or> body_compositionId req_missing = Some []"
    by (simp add: req_missing_def)
  show ?thesis
    using missing_compositionId_rejected [OF h, of cfg_demo env_demo "{}"]
    by (simp add: req_missing_def)
qed

section \<open>A renderer that exits with an error code\<close>

text \<open>
  C5, as the code has it. When the renderer exits with a code other than 0, the one
  response is status 500 with the message \<^verbatim>\<open>Video rendering failed.\<close> and an error text.
  When both channels stayed within the buffer limit of \<^verbatim>\<open>exec\<close>, the error text is
  \<^verbatim>\<open>Command failed: \<close>, the command, a line break and the error channel of the process, so
  it contains that channel; when one channel went over the limit, the error text is the
  message of the limit and nothing of what the process wrote. A file left at the request's
  path is the target of one deletion attempt; and when the system allows the deletion, no
  file is at the path afterwards. The claim promises the diagnostic text and the absence of
  the file without these conditions; the example after the witness has a request after
  which the partial file is still there, and one whose response does not hold what the
  process wrote.
\<close>

theorem nonzero_exit_is_server_error:
  assumes "truthy_str (body_compositionId req)"
      and "request_run cfg e req files = Some pr"
      and "ending pr = Exited n" and "n \<noteq> 0"
  shows "(\<exists>text. responses (serve cfg e req files) =
              [JsonResponse 500 [(''message'', ''Video rendering failed.''), (''error'', text)]]) \<and>
         (within_buffer e pr \<longrightarrow>
            responses (serve cfg e req files) =
              [JsonResponse 500
                 [(''message'', ''Video rendering failed.''),
                  (''error'', ''Command failed: '' @ request_command cfg e req @ [CHR 0x0A] @
                      p_stderr pr)]] \<and>
            includes_str (''Command failed: '' @ request_command cfg e req @ [CHR 0x0A] @ p_stderr pr)
              (p_stderr pr)) \<and>
         (length (p_stderr pr) \<le> max_buffer e \<and> max_buffer e < length (p_stdout pr) \<longrightarrow>
            responses (serve cfg e req files) =
              [JsonResponse 500
                 [(''message'', ''Video rendering failed.''),
                  (''error'', ''stdout maxBuffer length exceeded'')]]) \<and>
         (length (p_stdout pr) \<le> max_buffer e \<and> max_buffer e < length (p_stderr pr) \<longrightarrow>
            responses (serve cfg e req files) =
              [JsonResponse 500
                 [(''message'', ''Video rendering failed.''),
                  (''error'', ''stderr maxBuffer length exceeded'')]]) \<and>
         (request_path cfg e req \<in> fs_after pr \<longrightarrow>
            unlinks (serve cfg e req files) = [request_path cfg e req]) \<and>
         (unlink_ok e \<longrightarrow> request_path cfg e req \<notin> fs (serve cfg e req files))"
proof -
  let ?err = "if within_buffer e pr then exec_failed (request_command cfg e req) pr
              else overflow_error e pr"
  have out: "render_outcome cfg e req files = Inl ?err"
    using assms(2,3,4) by (simp add: render_outcome_eq)
  have disk: "disk_after_render cfg e req files = fs_after pr"
    using assms(2) by (simp add: disk_after_render_eq)
  note f = serve_failed [OF assms(1) out]
  have r1: "responses (serve cfg e req files) =
              [JsonResponse 500
                 [(''message'', ''Video rendering failed.''),
                  (''error'', ''Command failed: '' @ request_command cfg e req @ [CHR 0x0A] @
                      p_stderr pr)]]"
    if "within_buffer e pr"
    using f(1) that by (simp add: exec_failed_def render_failed_body_def)
  have i: "includes_str (''Command failed: '' @ request_command cfg e req @ [CHR 0x0A] @ p_stderr pr)
             (p_stderr pr)"
    using includes_str_suffix [of "''Command failed: '' @ request_command cfg e req @ [CHR 0x0A]" "p_stderr pr"]
    by simp
  have r0: "\<exists>text. responses (serve cfg e req files) =
              [JsonResponse 500 [(''message'', ''Video rendering failed.''), (''error'', text)]]"
    using f(1) by (simp add: render_failed_body_def)
  have r2: "responses (serve cfg e req files) =
              [JsonResponse 500
                 [(''message'', ''Video rendering failed.''),
                  (''error'', ''stdout maxBuffer length exceeded'')]]"
    if "length (p_stderr pr) \<le> max_buffer e \<and> max_buffer e < length (p_stdout pr)"
    using f(1) that by (simp add: render_failed_body_def within_buffer_def overflow_error_def)
  have r3: "responses (serve cfg e req files) =
              [JsonResponse 500
                 [(''message'', ''Video rendering failed.''),
                  (''error'', ''stderr maxBuffer length exceeded'')]]"
    if "length (p_stdout pr) \<le> max_buffer e \<and> max_buffer e < length (p_stderr pr)"
    using f(1) that by (simp add: render_failed_body_def within_buffer_def overflow_error_def)
  have u: "request_path cfg e req \<in> fs_after pr \<longrightarrow>
            unlinks (serve cfg e req files) = [request_path cfg e req]"
    using f(2) by (simp add: disk)
  have g: "unlink_ok e \<longrightarrow> request_path cfg e req \<notin> fs (serve cfg e req files)"
    using f(3) by simp
  from r0 r1 i r2 r3 u g show ?thesis by blast
qed

theorem nonzero_exit_is_server_error_witness:
  "truthy_str (body_compositionId req_intro) \<and>
   request_run cfg_demo env_crash req_intro {} =
     Some \<lparr>ending = Exited 1, p_stdout = [], p_stderr = ''ffmpeg: broken pipe'',
           fs_after = {path_intro_a}\<rparr> \<and>
   responses (serve cfg_demo env_crash req_intro {}) =
     [JsonResponse 500
        [(''message'', ''Video rendering failed.''),
         (''error'', ''Command failed: '' @ request_command cfg_demo env_crash req_intro @ [CHR 0x0A] @
             ''ffmpeg: broken pipe'')]] \<and>
   unlinks (serve cfg_demo env_crash req_intro {}) = [path_intro_a] \<and>
   path_intro_a \<notin> fs (serve cfg_demo env_crash req_intro {})"
proof -
  have u: "uuid env_crash = uuid_a" by (simp add: env_crash_def env_demo_def)
  have sp: "spawn env_crash = renderer_stub 1 [] ''ffmpeg: broken pipe'' {path_intro_a}"
    by (simp add: env_crash_def)
  have mb: "max_buffer env_crash = 1048576" by (simp add: env_crash_def env_demo_def)
  have p: "request_path cfg_demo env_crash req_intro = path_intro_a"
    by (rule request_path_intro [OF u intro_id])
  have rr: "request_run cfg_demo env_crash req_intro {} =
     Some \<lparr>ending = Exited 1, p_stdout = [], p_stderr = ''ffmpeg: broken pipe'',
           fs_after = {path_intro_a}\<rparr>"
    using run_intro [OF u intro_id sp, of "{}"] by simp
  have x: "ending \<lparr>ending = Exited 1, p_stdout = [], p_stderr = ''ffmpeg: broken pipe'',
           fs_after = {path_intro_a}\<rparr> = Exited 1"
    by simp
  have ne: "(1::nat) \<noteq> 0" by simp
  have ok: "unlink_ok env_crash" by (simp add: env_crash_def env_demo_def)
  show ?thesis
    using nonzero_exit_is_server_error [OF truthy_intro rr x ne] p rr ok truthy_intro
    by (simp add: within_buffer_def mb)
qed

text \<open>
  Two renderers that exit with code 1. After the first the deletion of the partial file
  fails, and the file stays. The second has written one byte more than the limit to its
  error channel: the body of the response holds the message of the limit, not what the
  renderer wrote.
\<close>

theorem nonzero_exit_leaves_file_or_loses_text:
  "request_run cfg_demo env_crash_locked req_intro {} =
     Some \<lparr>ending = Exited 1, p_stdout = [], p_stderr = ''ffmpeg: broken pipe'',
           fs_after = {path_intro_a}\<rparr> \<and>
   request_path cfg_demo env_crash_locked req_intro = path_intro_a \<and>
   path_intro_a \<in> fs (serve cfg_demo env_crash_locked req_intro {}) \<and>
   request_run cfg_demo env_crash_flood req_intro {} =
     Some \<lparr>ending = Exited 1, p_stdout = [], p_stderr = replicate 1048577 (CHR ''x''),
           fs_after = {path_intro_a}\<rparr> \<and>
   responses (serve cfg_demo env_crash_flood req_intro {}) =
     [JsonResponse 500
        [(''message'', ''Video rendering failed.''),
         (''error'', ''stderr maxBuffer length exceeded'')]] \<and>
   \<not> includes_str ''stderr maxBuffer length exceeded'' (replicate 1048577 (CHR ''x''))"
proof -
  have u: "uuid env_crash_locked = uuid_a"
    by (simp add: env_crash_locked_def env_crash_def env_demo_def)
  have sp: "spawn env_crash_locked = renderer_stub 1 [] ''ffmpeg: broken pipe'' {path_intro_a}"
    by (simp add: env_crash_locked_def env_crash_def)
  have mb: "max_buffer env_crash_locked = 1048576"
    by (simp add: env_crash_locked_def env_crash_def env_demo_def)
  have p: "request_path cfg_demo env_crash_locked req_intro = path_intro_a"
    by (rule request_path_intro [OF u intro_id])
  have rr: "request_run cfg_demo env_crash_locked req_intro {} =
     Some \<lparr>ending = Exited 1, p_stdout = [], p_stderr = ''ffmpeg: broken pipe'',
           fs_after = {path_intro_a}\<rparr>"
    using run_intro [OF u intro_id sp, of "{}"] by simp
  have out: "render_outcome cfg_demo env_crash_locked req_intro {} =
      Inl (exec_failed (request_command cfg_demo env_crash_locked req_intro)
             \<lparr>ending = Exited 1, p_stdout = [], p_stderr = ''ffmpeg: broken pipe'',
               fs_after = {path_intro_a}\<rparr>)"
    by (simp add: render_outcome_eq rr within_buffer_def mb)
  have lk: "\<not> unlink_ok env_crash_locked" by (simp add: env_crash_locked_def)
  have stays: "path_intro_a \<in> fs (serve cfg_demo env_crash_locked req_intro {})"
    using serve_failed(3) [OF truthy_intro out] lk
    by (simp add: disk_after_render_eq rr)
  have u': "uuid env_crash_flood = uuid_a" by (simp add: env_crash_flood_def env_demo_def)
  have sp': "spawn env_crash_flood =
      renderer_stub 1 [] (replicate 1048577 (CHR ''x'')) {path_intro_a}"
    by (simp add: env_crash_flood_def)
  have mb': "max_buffer env_crash_flood = 1048576" by (simp add: env_crash_flood_def env_demo_def)
  have rr': "request_run cfg_demo env_crash_flood req_intro {} =
     Some \<lparr>ending = Exited 1, p_stdout = [], p_stderr = replicate 1048577 (CHR ''x''),
           fs_after = {path_intro_a}\<rparr>"
    using run_intro [OF u' intro_id sp', of "{}"] by simp
  have out': "render_outcome cfg_demo env_crash_flood req_intro {} =
      Inl (overflow_error env_crash_flood
             \<lparr>ending = Exited 1, p_stdout = [], p_stderr = replicate 1048577 (CHR ''x''),
               fs_after = {path_intro_a}\<rparr>)"
    by (simp add: render_outcome_eq rr' within_buffer_def mb')
  have body: "responses (serve cfg_demo env_crash_flood req_intro {}) =
     [JsonResponse 500
        [(''message'', ''Video rendering failed.''),
         (''error'', ''stderr maxBuffer length exceeded'')]]"
    using serve_failed(1) [OF truthy_intro out']
    by (simp add: overflow_error_def mb' render_failed_body_def)
  have lost: "\<not> includes_str ''stderr maxBuffer length exceeded'' (replicate 1048577 (CHR ''x''))"
    using includes_str_length [of "''stderr maxBuffer length exceeded''" "replicate 1048577 (CHR ''x'')"]
    by auto
  from rr p stays rr' body lost show ?thesis by blast
qed

section \<open>Distinct paths\<close>

text \<open>
  C6, as the code has it. Two requests whose tokens differ, have the same length and hold
  no slash (a UUID has 36 characters, digits and hyphens), and whose file names
  \<^verbatim>\<open>token-compositionId.mp4\<close> have no \<^verbatim>\<open>..\<close> segment, get different paths; a request
  attempts to delete its own path only, so the other request's file, if it is on disk when
  the first renderer ends, is still there when the first request is complete. Empty and
  \<^verbatim>\<open>.\<close> segments do no harm, as the witness shows with the id \<^verbatim>\<open>a//b\<close>. The claim promises
  distinct paths for every two requests; the example after the witness has two requests
  with different tokens and the same path.
\<close>

theorem distinct_tokens_distinct_paths:
  assumes "body_compositionId req1 = Some c1" and "c1 \<noteq> []"
      and "body_compositionId req2 = Some c2" and "c2 \<noteq> []"
      and "uuid e1 \<noteq> uuid e2" and "length (uuid e1) = length (uuid e2)"
      and "CHR ''/'' \<notin> set (uuid e1)" and "CHR ''/'' \<notin> set (uuid e2)"
      and "''..'' \<notin> set (split_on CHR ''/'' (uniqueFilename e1 c1))"
      and "''..'' \<notin> set (split_on CHR ''/'' (uniqueFilename e2 c2))"
  shows "request_path cfg e1 req1 \<noteq> request_path cfg e2 req2 \<and>
         set (unlinks (serve cfg e1 req1 files)) \<subseteq> {request_path cfg e1 req1} \<and>
         request_path cfg e2 req2 \<notin> set (unlinks (serve cfg e1 req1 files)) \<and>
         (request_path cfg e2 req2 \<in> disk_after_render cfg e1 req1 files \<longrightarrow>
            request_path cfg e2 req2 \<in> fs (serve cfg e1 req1 files))"
proof -
  have tr: "truthy_str (body_compositionId req1)"
    using assms(1,2) by (simp add: truthy_str_def)
  obtain t1 where p1: "request_path cfg e1 req1 = dir_prefix (outputDir cfg) @ uuid e1 @ t1"
    using path_join_token [OF assms(7), of c1 "outputDir cfg"] assms(9)
      request_path_Some [OF assms(1), of cfg e1]
    by (auto simp: uniqueFilename_def)
  obtain t2 where p2: "request_path cfg e2 req2 = dir_prefix (outputDir cfg) @ uuid e2 @ t2"
    using path_join_token [OF assms(8), of c2 "outputDir cfg"] assms(10)
      request_path_Some [OF assms(3), of cfg e2]
    by (auto simp: uniqueFilename_def)
  have ne: "request_path cfg e1 req1 \<noteq> request_path cfg e2 req2"
  proof
    assume "request_path cfg e1 req1 = request_path cfg e2 req2"
    with p1 p2 have "uuid e1 @ t1 = uuid e2 @ t2" by simp
    with assms(6) have "uuid e1 = uuid e2" by (metis append_eq_append_conv)
    with assms(5) show False by simp
  qed
  note u = serve_unlinks [OF tr, of cfg e1 files]
  have nu: "request_path cfg e2 req2 \<notin> set (unlinks (serve cfg e1 req1 files))"
    using u ne by auto
  have keep: "request_path cfg e2 req2 \<in> fs (serve cfg e1 req1 files)"
    if "request_path cfg e2 req2 \<in> disk_after_render cfg e1 req1 files"
    using that ne serve_fs [OF tr, of cfg e1 files] by auto
  from ne u nu keep show ?thesis by blast
qed

theorem distinct_tokens_distinct_paths_witness:
  "uuid env_demo \<noteq> uuid env_b \<and>
   body_compositionId req_slashes = Some ''a//b'' \<and>
   body_compositionId req_slashes_b = Some ''a//b'' \<and>
   body_inputProps req_slashes \<noteq> body_inputProps req_slashes_b \<and>
   \<not> plain_segments (uniqueFilename env_demo ''a//b'') \<and>
   request_path cfg_demo env_demo req_slashes \<noteq> request_path cfg_demo env_b req_slashes_b \<and>
   request_path cfg_demo env_b req_slashes_b \<notin> set (unlinks (serve cfg_demo env_demo req_slashes {}))"
proof -
  have b1: "body_compositionId req_slashes = Some ''a//b''" by (simp add: req_slashes_def)
  have b2: "body_compositionId req_slashes_b = Some ''a//b''" by (simp add: req_slashes_b_def)
  have ne: "''a//b'' \<noteq> []" by simp
  have u: "uuid env_demo \<noteq> uuid env_b" by (simp add: env_demo_def env_b_def uuid_a_def uuid_b_def)
  have l: "length (uuid env_demo) = length (uuid env_b)"
    by (simp add: env_demo_def env_b_def uuid_a_def uuid_b_def)
  have s1: "CHR ''/'' \<notin> set (uuid env_demo)" by (simp add: env_demo_def uuid_a_def)
  have s2: "CHR ''/'' \<notin> set (uuid env_b)" by (simp add: env_b_def uuid_b_def)
  have d1: "''..'' \<notin> set (split_on CHR ''/'' (uniqueFilename env_demo ''a//b''))"
    by (simp add: uniqueFilename_def env_demo_def uuid_a_def)
  have d2: "''..'' \<notin> set (split_on CHR ''/'' (uniqueFilename env_b ''a//b''))"
    by (simp add: uniqueFilename_def env_b_def uuid_b_def)
  have np: "\<not> plain_segments (uniqueFilename env_demo ''a//b'')"
    by (simp add: plain_segments_def uniqueFilename_def env_demo_def uuid_a_def)
  have i: "body_inputProps req_slashes \<noteq> body_inputProps req_slashes_b"
    by (simp add: req_slashes_def req_slashes_b_def)
  show ?thesis
    using distinct_tokens_distinct_paths [OF b1 ne b2 ne u l s1 s2 d1 d2, of cfg_demo "{}"] b1 b2 u i np
    by simp
qed

text \<open>
  Two requests for the composition id \<^verbatim>\<open>x/../y\<close>, with different tokens and different
  input properties: \<^verbatim>\<open>path.join\<close> resolves \<^verbatim>\<open>token-x/..\<close> away, and both get the path
  \<^verbatim>\<open>/srv/backend/output/y.mp4\<close>.
\<close>

theorem dot_segments_collide:
  "uuid env_demo \<noteq> uuid env_b \<and>
   body_compositionId req_dotdot = body_compositionId req_dotdot_b \<and>
   body_inputProps req_dotdot \<noteq> body_inputProps req_dotdot_b \<and>
   request_path cfg_demo env_demo req_dotdot = request_path cfg_demo env_b req_dotdot_b"
proof -
  have b1: "body_compositionId req_dotdot = Some ''x/../y''" by (simp add: req_dotdot_def)
  have b2: "body_compositionId req_dotdot_b = Some ''x/../y''" by (simp add: req_dotdot_b_def)
  have u: "uuid env_demo \<noteq> uuid env_b" by (simp add: env_demo_def env_b_def uuid_a_def uuid_b_def)
  have i: "body_inputProps req_dotdot \<noteq> body_inputProps req_dotdot_b"
    by (simp add: req_dotdot_def req_dotdot_b_def)
  have p1: "request_path cfg_demo env_demo req_dotdot = ''/srv/backend/output/y.mp4''"
    by (simp add: request_path_Some [OF b1] cfg_demo_def env_demo_def uuid_a_def path_join_def
        normalize_path_def normalizeString_def norm_step_def)
  have p2: "request_path cfg_demo env_b req_dotdot_b = ''/srv/backend/output/y.mp4''"
    by (simp add: request_path_Some [OF b2] cfg_demo_def env_b_def uuid_b_def path_join_def
        normalize_path_def normalizeString_def norm_step_def)
  from b1 b2 u i p1 p2 show ?thesis by simp
qed

section \<open>Delivery failures\<close>

text \<open>
  C7. After a successful render whose delivery fails: when nothing has gone out (the file
  is not on disk, the file sender refuses the path, or the transport failed before the
  headers), the one response is status 500 with the message
  \<^verbatim>\<open>Error sending the rendered file.\<close>; when the headers had gone out, the interrupted
  download stays the only response. In neither case is the response the one of a render
  failure; the failure is logged, and the deletion of the request's path is attempted.
\<close>

theorem delivery_failure_after_render:
  assumes "truthy_str (body_compositionId req)"
      and "render_outcome cfg e req files = Inr True"
      and "request_path cfg e req \<notin> disk_after_render cfg e req files \<or>
           sender_refuses e (request_path cfg e req) \<or> transport e \<noteq> Delivered"
  shows "(request_path cfg e req \<notin> disk_after_render cfg e req files \<or>
          sender_refuses e (request_path cfg e req) \<or>
          transport e = FailedBeforeHeaders \<longrightarrow>
            responses (serve cfg e req files) =
              [JsonResponse 500 [(''message'', ''Error sending the rendered file.'')]]) \<and>
         (request_path cfg e req \<in> disk_after_render cfg e req files \<and>
          \<not> sender_refuses e (request_path cfg e req) \<and>
          transport e = FailedAfterHeaders \<longrightarrow>
            responses (serve cfg e req files) =
              [FileResponse (request_path cfg e req)
                 (basename (finalDownloadName e (request_cid req))) False]) \<and>
         (\<forall>msg. responses (serve cfg e req files) \<noteq> [JsonResponse 500 (render_failed_body msg)]) \<and>
         ErrSending (request_path cfg e req) \<in> set (logged (serve cfg e req files)) \<and>
         unlinks (serve cfg e req files) = [request_path cfg e req]"
proof -
  note f = serve_ok [OF assms(1,2)]
  have a: "request_path cfg e req \<notin> disk_after_render cfg e req files \<or>
          sender_refuses e (request_path cfg e req) \<or>
          transport e = FailedBeforeHeaders \<longrightarrow>
            responses (serve cfg e req files) =
              [JsonResponse 500 [(''message'', ''Error sending the rendered file.'')]]"
    using f(1) by (auto simp: send_failed_body_def)
  have b: "request_path cfg e req \<in> disk_after_render cfg e req files \<and>
          \<not> sender_refuses e (request_path cfg e req) \<and>
          transport e = FailedAfterHeaders \<longrightarrow>
            responses (serve cfg e req files) =
              [FileResponse (request_path cfg e req)
                 (basename (finalDownloadName e (request_cid req))) False]"
    using f(1) by auto
  have c: "responses (serve cfg e req files) \<noteq> [JsonResponse 500 (render_failed_body msg)]" for msg
    using f(1) assms(3) bodies_differ [of msg] by (cases "transport e") (auto split: if_splits)
  from a b c f(7) [OF assms(3)] f(2) show ?thesis by blast
qed

theorem delivery_failure_after_render_witness:
  "render_outcome cfg_demo env_aborted req_intro {} = Inr True \<and>
   transport env_aborted \<noteq> Delivered \<and>
   responses (serve cfg_demo env_aborted req_intro {}) =
     [FileResponse path_intro_a ''intro-1700000000123.mp4'' False] \<and>
   ErrSending path_intro_a \<in> set (logged (serve cfg_demo env_aborted req_intro {})) \<and>
   unlinks (serve cfg_demo env_aborted req_intro {}) = [path_intro_a] \<and>
   render_outcome cfg_demo env_refused req_intro {} = Inr True \<and>
   transport env_refused \<noteq> Delivered \<and>
   responses (serve cfg_demo env_refused req_intro {}) =
     [JsonResponse 500 [(''message'', ''Error sending the rendered file.'')]] \<and>
   unlinks (serve cfg_demo env_refused req_intro {}) = [path_intro_a] \<and>
   render_outcome cfg_demo env_hidden req_hidden {} = Inr True \<and>
   transport env_hidden = Delivered \<and>
   disk_after_render cfg_demo env_hidden req_hidden {} = {path_hidden} \<and>
   sender_refuses env_hidden path_hidden \<and>
   sender_refuses (env_hidden\<lparr>every_segment_checked := False\<rparr>) path_hidden \<and>
   responses (serve cfg_demo env_hidden req_hidden {}) =
     [JsonResponse 500 [(''message'', ''Error sending the rendered file.'')]] \<and>
   unlinks (serve cfg_demo env_hidden req_hidden {}) = [path_hidden]"
proof -
  have c: "request_cid req_intro = ''intro''"
    by (simp add: request_cid_def template_str_def req_intro_def)
  have d: "render_outcome cfg_demo env_aborted req_intro {} = Inr True"
    "disk_after_render cfg_demo env_aborted req_intro {} = {path_intro_a}"
    "request_path cfg_demo env_aborted req_intro = path_intro_a"
    by (rule demo_render_ok; simp add: env_aborted_def env_demo_def)+
  have t: "transport env_aborted = FailedAfterHeaders" by (simp add: env_aborted_def)
  have h: "request_path cfg_demo env_aborted req_intro \<notin>
             disk_after_render cfg_demo env_aborted req_intro {} \<or>
           sender_refuses env_aborted (request_path cfg_demo env_aborted req_intro) \<or>
           transport env_aborted \<noteq> Delivered"
    by (simp add: t)
  have n: "basename (finalDownloadName env_aborted ''intro'') = ''intro-1700000000123.mp4''"
    by (simp add: finalDownloadName_def env_aborted_def env_demo_def show_nat.simps digit_char_def
        basename_def strip_trailing_slashes_def)
  have d': "render_outcome cfg_demo env_refused req_intro {} = Inr True"
    "disk_after_render cfg_demo env_refused req_intro {} = {path_intro_a}"
    "request_path cfg_demo env_refused req_intro = path_intro_a"
    by (rule demo_render_ok; simp add: env_refused_def env_demo_def)+
  have t': "transport env_refused = FailedBeforeHeaders" by (simp add: env_refused_def)
  have h': "request_path cfg_demo env_refused req_intro \<notin>
             disk_after_render cfg_demo env_refused req_intro {} \<or>
           sender_refuses env_refused (request_path cfg_demo env_refused req_intro) \<or>
           transport env_refused \<noteq> Delivered"
    by (simp add: t')
  have first: "responses (serve cfg_demo env_aborted req_intro {}) =
     [FileResponse path_intro_a ''intro-1700000000123.mp4'' False] \<and>
   ErrSending path_intro_a \<in> set (logged (serve cfg_demo env_aborted req_intro {})) \<and>
   unlinks (serve cfg_demo env_aborted req_intro {}) = [path_intro_a]"
    using delivery_failure_after_render [OF truthy_intro d(1) h] d t c n path_intro_sent
    by simp
  have second: "responses (serve cfg_demo env_refused req_intro {}) =
     [JsonResponse 500 [(''message'', ''Error sending the rendered file.'')]] \<and>
   unlinks (serve cfg_demo env_refused req_intro {}) = [path_intro_a]"
    using delivery_failure_after_render [OF truthy_intro d'(1) h'] d' t' by simp
  have bh: "body_compositionId req_hidden = Some ''clips/.draft''" by (simp add: req_hidden_def)
  have trh: "truthy_str (body_compositionId req_hidden)" by (simp add: bh truthy_str_def)
  have ch: "request_cid req_hidden = ''clips/.draft''"
    by (simp add: request_cid_def bh template_str_def)
  have ph: "request_path cfg_demo env_hidden req_hidden = path_hidden"
    by (simp add: request_path_Some [OF bh] cfg_demo_def env_hidden_def env_demo_def uuid_a_def
        path_hidden_def path_join_def normalize_path_def normalizeString_def norm_step_def)
  have clh: "CHR 0x00 \<notin> set (request_command cfg_demo env_hidden req_hidden)"
    by (rule command_clean) (simp_all add: entry_point_demo ch ph path_hidden_def)
  have sph: "spawn env_hidden = renderer_stub 0 [] ''Rendered 30/30 frames'' {path_hidden}"
    by (simp add: env_hidden_def)
  have mbh: "max_buffer env_hidden = 1048576" by (simp add: env_hidden_def env_demo_def)
  have rrh: "request_run cfg_demo env_hidden req_hidden {} =
      Some \<lparr>ending = Exited 0, p_stdout = [], p_stderr = ''Rendered 30/30 frames'',
            fs_after = {path_hidden}\<rparr>"
    using request_run_stub [OF sph clh, of "{}"] by (simp add: project_dir_demo)
  have okh: "render_outcome cfg_demo env_hidden req_hidden {} = Inr True"
    using progress_is_no_signature by (simp add: render_outcome_eq rrh within_buffer_def mbh)
  have diskh: "disk_after_render cfg_demo env_hidden req_hidden {} = {path_hidden}"
    by (simp add: disk_after_render_eq rrh)
  have refh: "sender_refuses env_hidden path_hidden"
    "sender_refuses (env_hidden\<lparr>every_segment_checked := False\<rparr>) path_hidden"
    by (simp_all add: sender_refuses_def up_path_def path_hidden_def normalize_path_def normalizeString_def
        norm_step_def dot_file_def)
  have th: "transport env_hidden = Delivered" by (simp add: env_hidden_def env_demo_def)
  have hh: "request_path cfg_demo env_hidden req_hidden \<notin>
             disk_after_render cfg_demo env_hidden req_hidden {} \<or>
           sender_refuses env_hidden (request_path cfg_demo env_hidden req_hidden) \<or>
           transport env_hidden \<noteq> Delivered"
    by (simp add: ph refh)
  have third: "responses (serve cfg_demo env_hidden req_hidden {}) =
     [JsonResponse 500 [(''message'', ''Error sending the rendered file.'')]] \<and>
   unlinks (serve cfg_demo env_hidden req_hidden {}) = [path_hidden]"
    using delivery_failure_after_render [OF trh okh hh] by (simp add: ph refh)
  from first second third d(1) d'(1) t t' okh th diskh refh show ?thesis by simp
qed

section \<open>The name offered to the caller\<close>

text \<open>
  C8, as the code has it. After a successful render, \<^verbatim>\<open>res.download\<close> is called once, with
  the request's path and the name \<^verbatim>\<open>compositionId-timestamp.mp4\<close>. A download whose headers
  go out offers the caller the base name of that name: what follows the last slash of the
  composition id, then a hyphen, the timestamp and \<^verbatim>\<open>.mp4\<close>; for an id without a slash this
  is \<^verbatim>\<open>compositionId-timestamp.mp4\<close>. The timestamp is the decimal numeral of the clock:
  digits only, of the clock's value, without a leading zero. The clock reaches nothing
  else: the path, the command, the deletion and the files on disk are the same at any other
  time. The claim has the name offered to the caller match \<^verbatim>\<open>compositionId-timestamp.mp4\<close>
  for every id; the example after the witness is an id for which it does not.
\<close>

theorem delivery_name_from_id_and_clock:
  assumes "body_compositionId req = Some cid" and "cid \<noteq> []"
      and "render_outcome cfg e req files = Inr True"
  shows "downloads (serve cfg e req files) =
           [(request_path cfg e req, cid @ ''-'' @ show_nat (now e) @ ''.mp4'')] \<and>
         (request_path cfg e req \<in> disk_after_render cfg e req files \<and>
          \<not> sender_refuses e (request_path cfg e req) \<and>
          transport e \<noteq> FailedBeforeHeaders \<longrightarrow>
            responses (serve cfg e req files) =
              [FileResponse (request_path cfg e req)
                 (last (split_on CHR ''/'' cid) @ ''-'' @ show_nat (now e) @ ''.mp4'')
                 (transport e = Delivered)]) \<and>
         (CHR ''/'' \<notin> set cid \<longrightarrow> last (split_on CHR ''/'' cid) = cid) \<and>
         decimal_value (show_nat (now e)) = now e \<and>
         set (show_nat (now e)) \<subseteq> set ''0123456789'' \<and>
         (now e \<noteq> 0 \<longrightarrow> hd (show_nat (now e)) \<noteq> CHR ''0'') \<and>
         (\<forall>t. request_path cfg (e\<lparr>now := t\<rparr>) req = request_path cfg e req \<and>
              execs (serve cfg (e\<lparr>now := t\<rparr>) req files) = execs (serve cfg e req files) \<and>
              unlinks (serve cfg (e\<lparr>now := t\<rparr>) req files) = unlinks (serve cfg e req files) \<and>
              fs (serve cfg (e\<lparr>now := t\<rparr>) req files) = fs (serve cfg e req files))"
proof -
  have tr: "truthy_str (body_compositionId req)"
    using assms(1,2) by (simp add: truthy_str_def)
  have c: "request_cid req = cid"
    using assms(1) by (simp add: request_cid_def template_str_def)
  note f = serve_ok [OF tr assms(3)]
  have d: "downloads (serve cfg e req files) =
           [(request_path cfg e req, cid @ ''-'' @ show_nat (now e) @ ''.mp4'')]"
    using f(4) by (simp add: c finalDownloadName_def)
  have bn: "basename (finalDownloadName e (request_cid req)) =
      last (split_on CHR ''/'' cid) @ ''-'' @ show_nat (now e) @ ''.mp4''"
    using basename_download_name [of cid "now e"] by (simp add: c finalDownloadName_def)
  have r: "responses (serve cfg e req files) =
              [FileResponse (request_path cfg e req)
                 (last (split_on CHR ''/'' cid) @ ''-'' @ show_nat (now e) @ ''.mp4'')
                 (transport e = Delivered)]"
    if "request_path cfg e req \<in> disk_after_render cfg e req files"
      and "\<not> sender_refuses e (request_path cfg e req)"
      and "transport e \<noteq> FailedBeforeHeaders"
    using f(1) that bn by (cases "transport e") simp_all
  have s: "CHR ''/'' \<notin> set cid \<longrightarrow> last (split_on CHR ''/'' cid) = cid"
    by (simp add: split_on_no_sep)
  have n: "request_path cfg (e\<lparr>now := t\<rparr>) req = request_path cfg e req \<and>
              execs (serve cfg (e\<lparr>now := t\<rparr>) req files) = execs (serve cfg e req files) \<and>
              unlinks (serve cfg (e\<lparr>now := t\<rparr>) req files) = unlinks (serve cfg e req files) \<and>
              fs (serve cfg (e\<lparr>now := t\<rparr>) req files) = fs (serve cfg e req files)" for t
  proof -
    have o: "render_outcome cfg (e\<lparr>now := t\<rparr>) req files = Inr True"
      using assms(3) by (simp add: now_irrelevant)
    note g = serve_ok [OF tr o]
    show ?thesis
      using f(2,3,5) g(2,3,5) by (auto simp: now_irrelevant split: option.splits)
  qed
  from d r s n decimal_value_show_nat [of "now e"] show_nat_digits [of "now e"]
    show_nat_no_leading_zero [of "now e"]
  show ?thesis by blast
qed

theorem delivery_name_from_id_and_clock_witness:
  "body_compositionId req_intro = Some ''intro'' \<and>
   render_outcome cfg_demo env_demo req_intro {} = Inr True \<and>
   downloads (serve cfg_demo env_demo req_intro {}) = [(path_intro_a, ''intro-1700000000123.mp4'')] \<and>
   responses (serve cfg_demo env_demo req_intro {}) =
     [FileResponse path_intro_a ''intro-1700000000123.mp4'' True] \<and>
   fs (serve cfg_demo env_demo req_intro {}) = {}"
proof -
  note d = demo_render_ok [OF env_demo_simps(1,4,5)]
  have n: "show_nat (now env_demo) = ''1700000000123''"
    by (simp add: env_demo_def show_nat.simps digit_char_def)
  have ne: "''intro'' \<noteq> []" by simp
  note t = delivery_name_from_id_and_clock [OF intro_id ne d(1)]
  from t have dl: "downloads (serve cfg_demo env_demo req_intro {}) =
           [(request_path cfg_demo env_demo req_intro, ''intro'' @ ''-'' @ show_nat (now env_demo) @ ''.mp4'')]"
    by (rule conjunct1)
  from t have "request_path cfg_demo env_demo req_intro \<in> disk_after_render cfg_demo env_demo req_intro {} \<and>
          \<not> sender_refuses env_demo (request_path cfg_demo env_demo req_intro) \<and>
          transport env_demo \<noteq> FailedBeforeHeaders \<longrightarrow>
            responses (serve cfg_demo env_demo req_intro {}) =
              [FileResponse (request_path cfg_demo env_demo req_intro)
                 (last (split_on CHR ''/'' ''intro'') @ ''-'' @ show_nat (now env_demo) @ ''.mp4'')
                 (transport env_demo = Delivered)]"
    by blast
  then have rs: "responses (serve cfg_demo env_demo req_intro {}) =
     [FileResponse path_intro_a ''intro-1700000000123.mp4'' True]"
    using d path_intro_sent env_demo_simps(3) by (simp add: n)
  have gone: "fs (serve cfg_demo env_demo req_intro {}) = {}"
    using serve_ok(3) [OF truthy_intro d(1)] d env_demo_simps(2) by simp
  from dl rs gone d intro_id show ?thesis by (simp add: n)
qed

text \<open>
  The composition id \<^verbatim>\<open>a/b\<close>: the render succeeds, the file is delivered, and the name the
  caller is offered is \<^verbatim>\<open>b-1700000000123.mp4\<close>, not \<^verbatim>\<open>a/b-1700000000123.mp4\<close>.
\<close>

theorem nested_id_offers_last_segment:
  "body_compositionId req_nested = Some ''a/b'' \<and>
   render_outcome cfg_demo env_nested req_nested {} = Inr True \<and>
   responses (serve cfg_demo env_nested req_nested {}) =
     [FileResponse path_nested ''b-1700000000123.mp4'' True] \<and>
   ''b-1700000000123.mp4'' \<noteq> ''a/b'' @ ''-'' @ show_nat (now env_nested) @ ''.mp4''"
proof -
  have b: "body_compositionId req_nested = Some ''a/b''" by (simp add: req_nested_def)
  have tr: "truthy_str (body_compositionId req_nested)" by (simp add: b truthy_str_def)
  have c: "request_cid req_nested = ''a/b''" by (simp add: request_cid_def b template_str_def)
  have p: "request_path cfg_demo env_nested req_nested = path_nested"
    by (simp add: request_path_Some [OF b] cfg_demo_def env_nested_def env_demo_def uuid_a_def
        path_nested_def path_join_def normalize_path_def normalizeString_def norm_step_def)
  have cl: "CHR 0x00 \<notin> set (request_command cfg_demo env_nested req_nested)"
    by (rule command_clean) (simp_all add: entry_point_demo c p path_nested_def)
  have sp: "spawn env_nested = renderer_stub 0 [] ''Rendered 30/30 frames'' {path_nested}"
    by (simp add: env_nested_def)
  have mb: "max_buffer env_nested = 1048576" by (simp add: env_nested_def env_demo_def)
  have rr: "request_run cfg_demo env_nested req_nested {} =
      Some \<lparr>ending = Exited 0, p_stdout = [], p_stderr = ''Rendered 30/30 frames'',
            fs_after = {path_nested}\<rparr>"
    using request_run_stub [OF sp cl, of "{}"] by (simp add: project_dir_demo)
  have ok: "render_outcome cfg_demo env_nested req_nested {} = Inr True"
    using progress_is_no_signature by (simp add: render_outcome_eq rr within_buffer_def mb)
  have disk: "disk_after_render cfg_demo env_nested req_nested {} = {path_nested}"
    by (simp add: disk_after_render_eq rr)
  have sent: "\<not> sender_refuses env_nested path_nested"
    by (simp add: sender_refuses_def up_path_def path_nested_def normalize_path_def normalizeString_def
        norm_step_def dot_file_def)
  have t: "transport env_nested = Delivered" by (simp add: env_nested_def env_demo_def)
  have n: "show_nat (now env_nested) = ''1700000000123''"
    by (simp add: env_nested_def env_demo_def show_nat.simps digit_char_def)
  have bn: "basename (finalDownloadName env_nested ''a/b'') = ''b-1700000000123.mp4''"
    by (simp add: finalDownloadName_def n basename_def strip_trailing_slashes_def)
  have rs: "responses (serve cfg_demo env_nested req_nested {}) =
     [FileResponse path_nested ''b-1700000000123.mp4'' True]"
    using serve_ok(1) [OF tr ok] by (simp add: p disk sent t c bn)
  from b ok rs show ?thesis by (simp add: n)
qed

section \<open>An unsanitised composition id\<close>

text \<open>
  C9, as the code has it. The handler rejects no non-empty composition id: the response is
  never the 400 of the validation. When neither the command nor the working directory holds
  a NUL character and a shell can be started, the one command the shell is given holds the
  id as it came, between two spaces and without quotes. An id that holds a NUL character
  reaches no shell: \<^verbatim>\<open>exec\<close> throws, and the response is status 500 with the message
  \<^verbatim>\<open>Video rendering failed.\<close>. The path that the command names, that the download is given
  and whose deletion is attempted is \<^verbatim>\<open>path.join\<close> of the output directory and
  \<^verbatim>\<open>token-compositionId.mp4\<close>: it ends with that name, the id in it as it came, when none
  of the name's segments is empty, \<^verbatim>\<open>.\<close> or \<^verbatim>\<open>..\<close>. The claim has every id reach the shell
  and the path unmodified; the example after the witness has two requests whose id reaches no
  shell and three ids that are not in the path.
\<close>

theorem compositionId_reaches_shell_unchanged:
  assumes "body_compositionId req = Some cid" and "cid \<noteq> []"
  shows "(CHR 0x00 \<notin> set (remotionEntryPoint cfg) \<and> CHR 0x00 \<notin> set cid \<and>
          CHR 0x00 \<notin> set (request_path cfg e req) \<and> CHR 0x00 \<notin> set (remotionProjectDir cfg) \<longrightarrow>
            (\<forall>pr. spawn e
                    (''npx remotion render '' @ dq @ remotionEntryPoint cfg @ dq @ '' '' @ cid @
                       '' '' @ dq @ request_path cfg e req @ dq)
                    (remotionProjectDir cfg) files = Inr pr \<longrightarrow>
               execs (serve cfg e req files) =
                 [(''npx remotion render '' @ dq @ remotionEntryPoint cfg @ dq @ '' '' @ cid @
                     '' '' @ dq @ request_path cfg e req @ dq,
                   remotionProjectDir cfg)])) \<and>
         (CHR 0x00 \<in> set cid \<longrightarrow>
            execs (serve cfg e req files) = [] \<and>
            responses (serve cfg e req files) =
              [JsonResponse 500
                 [(''message'', ''Video rendering failed.''),
                  (''error'', arg_error e
                     (''npx remotion render '' @ dq @ remotionEntryPoint cfg @ dq @ '' '' @ cid @
                        '' '' @ dq @ request_path cfg e req @ dq))]]) \<and>
         (\<forall>body. responses (serve cfg e req files) \<noteq> [JsonResponse 400 body]) \<and>
         set (unlinks (serve cfg e req files)) \<subseteq> {request_path cfg e req} \<and>
         (render_outcome cfg e req files = Inr True \<longrightarrow>
            map fst (downloads (serve cfg e req files)) = [request_path cfg e req] \<and>
            unlinks (serve cfg e req files) = [request_path cfg e req]) \<and>
         (plain_segments (uuid e @ ''-'' @ cid @ ''.mp4'') \<longrightarrow>
            request_path cfg e req = dir_prefix (outputDir cfg) @ uuid e @ ''-'' @ cid @ ''.mp4'')"
proof -
  let ?cmd = "''npx remotion render '' @ dq @ remotionEntryPoint cfg @ dq @ '' '' @ cid @
                '' '' @ dq @ request_path cfg e req @ dq"
  have tr: "truthy_str (body_compositionId req)"
    using assms by (simp add: truthy_str_def)
  have c: "request_command cfg e req = ?cmd"
    using assms(1) by (rule request_command_Some)
  have cc: "request_cid req = cid"
    using assms(1) by (simp add: request_cid_def template_str_def)
  have x: "execs (serve cfg e req files) = [(?cmd, remotionProjectDir cfg)]"
    if "CHR 0x00 \<notin> set (remotionEntryPoint cfg) \<and> CHR 0x00 \<notin> set cid \<and>
        CHR 0x00 \<notin> set (request_path cfg e req) \<and> CHR 0x00 \<notin> set (remotionProjectDir cfg)"
      and "spawn e ?cmd (remotionProjectDir cfg) files = Inr pr" for pr
  proof -
    have "CHR 0x00 \<notin> set (request_command cfg e req)"
      using that(1) by (intro command_clean) (simp_all add: cc)
    then have "request_run cfg e req files = Some pr"
      using that by (simp add: request_run_def exec_run_def c)
    then show ?thesis
      using serve_execs [OF tr, of cfg e files] by (simp add: c)
  qed
  have n: "execs (serve cfg e req files) = [] \<and>
        responses (serve cfg e req files) =
          [JsonResponse 500
             [(''message'', ''Video rendering failed.''), (''error'', arg_error e ?cmd)]]"
    if "CHR 0x00 \<in> set cid"
  proof -
    have i: "CHR 0x00 \<in> set (request_command cfg e req)"
      using that id_in_command [OF assms(1), of cfg e] by auto
    then have r: "request_run cfg e req files = None"
      by (simp add: request_run_def exec_run_def)
    have o: "render_outcome cfg e req files =
        Inl (start_error e (request_command cfg e req) (remotionProjectDir cfg) files)"
      by (simp add: render_outcome_eq r)
    have m: "message (start_error e (request_command cfg e req) (remotionProjectDir cfg) files) =
        arg_error e ?cmd"
      using i by (simp add: start_error_def c)
    from serve_failed(1,5) [OF tr o] show ?thesis
      by (simp add: r m render_failed_body_def)
  qed
  have d: "map fst (downloads (serve cfg e req files)) = [request_path cfg e req] \<and>
        unlinks (serve cfg e req files) = [request_path cfg e req]"
    if "render_outcome cfg e req files = Inr True"
    using serve_ok(2,4) [OF tr that] by simp
  have q: "request_path cfg e req = dir_prefix (outputDir cfg) @ uuid e @ ''-'' @ cid @ ''.mp4''"
    if "plain_segments (uuid e @ ''-'' @ cid @ ''.mp4'')"
    using path_join_plain [OF that, of "outputDir cfg"] request_path_Some [OF assms(1), of cfg e]
    by simp
  from x n d q serve_not_400 [OF tr, of cfg e files] serve_unlinks [OF tr, of cfg e files]
  show ?thesis by blast
qed

theorem compositionId_reaches_shell_unchanged_witness:
  "body_compositionId req_meta = Some ''sub/intro;id'' \<and>
   plain_segments (uuid env_demo @ ''-'' @ ''sub/intro;id'' @ ''.mp4'') \<and>
   request_path cfg_demo env_demo req_meta =
     ''/srv/backend/output/3f2b8c1e-5d4a-4c7b-9e0f-1a2b3c4d5e6f-sub/intro;id.mp4'' \<and>
   execs (serve cfg_demo env_demo req_meta {}) =
     [(''npx remotion render '' @ dq @ ''/srv/frontend/src/remotion/index.js'' @ dq @
         '' sub/intro;id '' @ dq @
         ''/srv/backend/output/3f2b8c1e-5d4a-4c7b-9e0f-1a2b3c4d5e6f-sub/intro;id.mp4'' @ dq,
       ''/srv/frontend'')]"
proof -
  let ?p = "''/srv/backend/output/3f2b8c1e-5d4a-4c7b-9e0f-1a2b3c4d5e6f-sub/intro;id.mp4''"
  let ?cmd = "''npx remotion render '' @ dq @ remotionEntryPoint cfg_demo @ dq @ '' '' @
               ''sub/intro;id'' @ '' '' @ dq @ request_path cfg_demo env_demo req_meta @ dq"
  have b: "body_compositionId req_meta = Some ''sub/intro;id''" by (simp add: req_meta_def)
  have ne: "''sub/intro;id'' \<noteq> []" by simp
  have pl: "plain_segments (uuid env_demo @ ''-'' @ ''sub/intro;id'' @ ''.mp4'')"
    by (simp add: plain_segments_def env_demo_def uuid_a_def)
  have d: "dir_prefix (outputDir cfg_demo) = ''/srv/backend/output/''"
    by (simp add: dir_prefix_def cfg_demo_def norm_step_def)
  have u: "uuid env_demo = ''3f2b8c1e-5d4a-4c7b-9e0f-1a2b3c4d5e6f''"
    by (simp add: env_demo_def uuid_a_def)
  note t = compositionId_reaches_shell_unchanged [OF b ne, of cfg_demo env_demo "{}"]
  from t pl have q: "request_path cfg_demo env_demo req_meta =
      dir_prefix (outputDir cfg_demo) @ uuid env_demo @ ''-'' @ ''sub/intro;id'' @ ''.mp4''"
    by blast
  have q': "request_path cfg_demo env_demo req_meta = ?p"
    using q by (simp add: d u)
  have clean: "CHR 0x00 \<notin> set (remotionEntryPoint cfg_demo) \<and> CHR 0x00 \<notin> set ''sub/intro;id'' \<and>
      CHR 0x00 \<notin> set (request_path cfg_demo env_demo req_meta) \<and>
      CHR 0x00 \<notin> set (remotionProjectDir cfg_demo)"
    by (simp add: entry_point_demo project_dir_demo q')
  have sp: "spawn env_demo ?cmd (remotionProjectDir cfg_demo) {} =
      Inr \<lparr>ending = Exited 0, p_stdout = [], p_stderr = ''Rendered 30/30 frames'',
           fs_after = {path_intro_a}\<rparr>"
    by (simp add: env_demo_def renderer_stub_def)
  from t clean sp have x: "execs (serve cfg_demo env_demo req_meta {}) =
      [(?cmd, remotionProjectDir cfg_demo)]"
    by blast
  show ?thesis
    using x b pl by (simp add: q' entry_point_demo project_dir_demo)
qed

text \<open>
  The composition id \<^verbatim>\<open>a\<close>, NUL, \<^verbatim>\<open>b\<close>: no shell is given a command, and the response is the
  500 of a render failure with the message of Node's error. The composition id
  \<^verbatim>\<open>sub/intro;id\<close> on a system where no shell can be started: no shell is given a command
  either, and the response is the 500 of a render failure. The composition id \<^verbatim>\<open>x/../y\<close>:
  the path is \<^verbatim>\<open>/srv/backend/output/y.mp4\<close>, in which neither the id nor the token is left.
  The composition ids \<^verbatim>\<open>a//b\<close> and \<^verbatim>\<open>a/./b\<close>: the path ends with \<^verbatim>\<open>-a/b.mp4\<close>, and the id
  is not in it.
\<close>

theorem ids_that_do_not_arrive:
  "body_compositionId req_nul = Some [CHR ''a'', CHR 0x00, CHR ''b''] \<and>
   execs (serve cfg_demo env_demo req_nul {}) = [] \<and>
   responses (serve cfg_demo env_demo req_nul {}) =
     [JsonResponse 500
        [(''message'', ''Video rendering failed.''),
         (''error'', ''The argument must be a string without null bytes'')]] \<and>
   execs (serve cfg_demo env_noshell req_meta {}) = [] \<and>
   responses (serve cfg_demo env_noshell req_meta {}) =
     [JsonResponse 500
        [(''message'', ''Video rendering failed.''), (''error'', ''spawn /bin/sh ENOENT'')]] \<and>
   body_compositionId req_dotdot = Some ''x/../y'' \<and>
   request_path cfg_demo env_demo req_dotdot = ''/srv/backend/output/y.mp4'' \<and>
   \<not> includes_str (request_path cfg_demo env_demo req_dotdot) ''x/../y'' \<and>
   body_compositionId req_slashes = Some ''a//b'' \<and>
   request_path cfg_demo env_demo req_slashes =
     ''/srv/backend/output/3f2b8c1e-5d4a-4c7b-9e0f-1a2b3c4d5e6f-a/b.mp4'' \<and>
   \<not> includes_str (request_path cfg_demo env_demo req_slashes) ''a//b'' \<and>
   body_compositionId req_dot = Some ''a/./b'' \<and>
   request_path cfg_demo env_demo req_dot =
     ''/srv/backend/output/3f2b8c1e-5d4a-4c7b-9e0f-1a2b3c4d5e6f-a/b.mp4'' \<and>
   \<not> includes_str (request_path cfg_demo env_demo req_dot) ''a/./b''"
proof -
  have b0: "body_compositionId req_nul = Some [CHR ''a'', CHR 0x00, CHR ''b'']"
    by (simp add: req_nul_def)
  have tr: "truthy_str (body_compositionId req_nul)" by (simp add: b0 truthy_str_def)
  have i: "CHR 0x00 \<in> set (request_command cfg_demo env_demo req_nul)"
    using id_in_command [OF b0, of cfg_demo env_demo] by auto
  then have r: "request_run cfg_demo env_demo req_nul {} = None"
    by (simp add: request_run_def exec_run_def)
  have o: "render_outcome cfg_demo env_demo req_nul {} =
      Inl (start_error env_demo (request_command cfg_demo env_demo req_nul)
             (remotionProjectDir cfg_demo) {})"
    by (simp add: render_outcome_eq r)
  have m: "message (start_error env_demo (request_command cfg_demo env_demo req_nul)
             (remotionProjectDir cfg_demo) {}) = ''The argument must be a string without null bytes''"
    using i by (simp add: start_error_def arg_error_demo)
  have n: "execs (serve cfg_demo env_demo req_nul {}) = [] \<and>
     responses (serve cfg_demo env_demo req_nul {}) =
     [JsonResponse 500
        [(''message'', ''Video rendering failed.''),
         (''error'', ''The argument must be a string without null bytes'')]]"
    using serve_failed(1,5) [OF tr o] by (simp add: r m render_failed_body_def)
  have bm: "body_compositionId req_meta = Some ''sub/intro;id''" by (simp add: req_meta_def)
  have trm: "truthy_str (body_compositionId req_meta)" by (simp add: bm truthy_str_def)
  have cm: "request_cid req_meta = ''sub/intro;id''"
    by (simp add: request_cid_def bm template_str_def)
  have pm: "request_path cfg_demo env_noshell req_meta =
      ''/srv/backend/output/3f2b8c1e-5d4a-4c7b-9e0f-1a2b3c4d5e6f-sub/intro;id.mp4''"
    by (simp add: request_path_Some [OF bm] cfg_demo_def env_noshell_def env_demo_def uuid_a_def
        path_join_def normalize_path_def normalizeString_def norm_step_def)
  have clm: "CHR 0x00 \<notin> set (request_command cfg_demo env_noshell req_meta)"
    by (rule command_clean) (simp_all add: entry_point_demo cm pm)
  have rm: "request_run cfg_demo env_noshell req_meta {} = None"
    using clm by (simp add: request_run_def exec_run_def spawn_noshell project_dir_demo)
  have om: "render_outcome cfg_demo env_noshell req_meta {} =
      Inl (start_error env_noshell (request_command cfg_demo env_noshell req_meta)
             (remotionProjectDir cfg_demo) {})"
    by (simp add: render_outcome_eq rm)
  have mm: "message (start_error env_noshell (request_command cfg_demo env_noshell req_meta)
             (remotionProjectDir cfg_demo) {}) = ''spawn /bin/sh ENOENT''"
    using clm by (simp add: start_error_def spawn_noshell project_dir_demo)
  have ns: "execs (serve cfg_demo env_noshell req_meta {}) = [] \<and>
     responses (serve cfg_demo env_noshell req_meta {}) =
     [JsonResponse 500
        [(''message'', ''Video rendering failed.''), (''error'', ''spawn /bin/sh ENOENT'')]]"
    using serve_failed(1,5) [OF trm om] by (simp add: rm mm render_failed_body_def)
  have b1: "body_compositionId req_dotdot = Some ''x/../y''" by (simp add: req_dotdot_def)
  have p1: "request_path cfg_demo env_demo req_dotdot = ''/srv/backend/output/y.mp4''"
    by (simp add: request_path_Some [OF b1] cfg_demo_def env_demo_def uuid_a_def path_join_def
        normalize_path_def normalizeString_def norm_step_def)
  have i1: "\<not> includes_str ''/srv/backend/output/y.mp4'' ''x/../y''" by simp
  have b2: "body_compositionId req_slashes = Some ''a//b''" by (simp add: req_slashes_def)
  have p2: "request_path cfg_demo env_demo req_slashes =
      ''/srv/backend/output/3f2b8c1e-5d4a-4c7b-9e0f-1a2b3c4d5e6f-a/b.mp4''"
    by (simp add: request_path_Some [OF b2] cfg_demo_def env_demo_def uuid_a_def path_join_def
        normalize_path_def normalizeString_def norm_step_def)
  have i2: "\<not> includes_str ''/srv/backend/output/3f2b8c1e-5d4a-4c7b-9e0f-1a2b3c4d5e6f-a/b.mp4'' ''a//b''"
    by simp
  have b3: "body_compositionId req_dot = Some ''a/./b''" by (simp add: req_dot_def)
  have p3: "request_path cfg_demo env_demo req_dot =
      ''/srv/backend/output/3f2b8c1e-5d4a-4c7b-9e0f-1a2b3c4d5e6f-a/b.mp4''"
    by (simp add: request_path_Some [OF b3] cfg_demo_def env_demo_def uuid_a_def path_join_def
        normalize_path_def normalizeString_def norm_step_def)
  have i3: "\<not> includes_str ''/srv/backend/output/3f2b8c1e-5d4a-4c7b-9e0f-1a2b3c4d5e6f-a/b.mp4'' ''a/./b''"
    by simp
  from b0 n ns b1 p1 i1 b2 p2 i2 b3 p3 i3 show ?thesis by simp
qed

section \<open>Success without a file\<close>

text \<open>
  C10, as the code has it. When the renderer exits with 0, both channels stayed within the
  buffer limit of \<^verbatim>\<open>exec\<close>, its error channel does not contain \<^verbatim>\<open>error\<close> and no file is
  at the request's path, \<open>runRemotionRender\<close> still reports success; the download is
  attempted and fails, and the one response is status 500 with the message
  \<^verbatim>\<open>Error sending the rendered file.\<close>, not the response of a render failure. The claim has
  this for every run with exit code 0 and no marker; the example after the witness is such a
  run that is answered with the response of a render failure.
\<close>

theorem success_without_file:
  assumes "truthy_str (body_compositionId req)"
      and "request_run cfg e req files = Some pr"
      and "ending pr = Exited 0" and "within_buffer e pr"
      and "\<not> includes_str (toLowerCase (p_stderr pr)) ''error''"
      and "request_path cfg e req \<notin> fs_after pr"
  shows "render_outcome cfg e req files = Inr True \<and>
         downloads (serve cfg e req files) =
           [(request_path cfg e req, finalDownloadName e (request_cid req))] \<and>
         responses (serve cfg e req files) =
           [JsonResponse 500 [(''message'', ''Error sending the rendered file.'')]] \<and>
         (\<forall>msg. responses (serve cfg e req files) \<noteq> [JsonResponse 500 (render_failed_body msg)]) \<and>
         ErrSending (request_path cfg e req) \<in> set (logged (serve cfg e req files))"
proof -
  have ok: "render_outcome cfg e req files = Inr True"
    using assms(2,3,4,5) by (simp add: render_outcome_eq)
  have disk: "disk_after_render cfg e req files = fs_after pr"
    using assms(2) by (simp add: disk_after_render_eq)
  note f = serve_ok [OF assms(1) ok]
  have r: "responses (serve cfg e req files) =
           [JsonResponse 500 [(''message'', ''Error sending the rendered file.'')]]"
    using f(1) assms(6) by (simp add: send_failed_body_def disk)
  have d: "responses (serve cfg e req files) \<noteq> [JsonResponse 500 (render_failed_body msg)]" for msg
    using r by (simp add: render_failed_body_def)
  have l: "ErrSending (request_path cfg e req) \<in> set (logged (serve cfg e req files))"
    using f(7) assms(6) by (simp add: disk)
  from ok f(4) r d l show ?thesis by blast
qed

theorem success_without_file_witness:
  "request_run cfg_demo env_nofile req_intro {} =
     Some \<lparr>ending = Exited 0, p_stdout = [], p_stderr = ''Rendered 0/0 frames'', fs_after = {}\<rparr> \<and>
   render_outcome cfg_demo env_nofile req_intro {} = Inr True \<and>
   responses (serve cfg_demo env_nofile req_intro {}) =
     [JsonResponse 500 [(''message'', ''Error sending the rendered file.'')]]"
proof -
  have u: "uuid env_nofile = uuid_a" by (simp add: env_nofile_def env_demo_def)
  have sp: "spawn env_nofile = renderer_stub 0 [] ''Rendered 0/0 frames'' {}"
    by (simp add: env_nofile_def)
  have mb: "max_buffer env_nofile = 1048576" by (simp add: env_nofile_def env_demo_def)
  let ?pr = "\<lparr>ending = Exited 0, p_stdout = [], p_stderr = ''Rendered 0/0 frames'', fs_after = {}\<rparr>"
  have rr: "request_run cfg_demo env_nofile req_intro {} = Some ?pr"
    using run_intro [OF u intro_id sp, of "{}"] by simp
  have x: "ending ?pr = Exited 0" by simp
  have wb: "within_buffer env_nofile ?pr" by (simp add: within_buffer_def mb)
  have s: "\<not> includes_str (toLowerCase (p_stderr ?pr)) ''error''"
    by (simp add: toLowerCase_def lower_char_def)
  have a: "request_path cfg_demo env_nofile req_intro \<notin> fs_after ?pr" by simp
  show ?thesis
    using success_without_file [OF truthy_intro rr x wb s a] rr by simp
qed

text \<open>
  A renderer that exits with 0, writes no file, a progress line to the error channel and
  one byte more than the limit to the other channel: no download is attempted, and the
  response is status 500 with the message \<^verbatim>\<open>Video rendering failed.\<close>.
\<close>

theorem flooded_success_without_file_is_render_failure:
  "request_run cfg_demo env_flood_nofile req_intro {} =
     Some \<lparr>ending = Exited 0, p_stdout = replicate 1048577 (CHR ''.''),
           p_stderr = ''Rendered 0/0 frames'', fs_after = {}\<rparr> \<and>
   \<not> includes_str (toLowerCase ''Rendered 0/0 frames'') ''error'' \<and>
   downloads (serve cfg_demo env_flood_nofile req_intro {}) = [] \<and>
   responses (serve cfg_demo env_flood_nofile req_intro {}) =
     [JsonResponse 500
        [(''message'', ''Video rendering failed.''),
         (''error'', ''stdout maxBuffer length exceeded'')]]"
proof -
  have u: "uuid env_flood_nofile = uuid_a" by (simp add: env_flood_nofile_def env_demo_def)
  have sp: "spawn env_flood_nofile =
      renderer_stub 0 (replicate 1048577 (CHR ''.'')) ''Rendered 0/0 frames'' {}"
    by (simp add: env_flood_nofile_def)
  have mb: "max_buffer env_flood_nofile = 1048576"
    by (simp add: env_flood_nofile_def env_demo_def)
  let ?pr = "\<lparr>ending = Exited 0, p_stdout = replicate 1048577 (CHR ''.''),
           p_stderr = ''Rendered 0/0 frames'', fs_after = {}\<rparr>"
  have rr: "request_run cfg_demo env_flood_nofile req_intro {} = Some ?pr"
    using run_intro [OF u intro_id sp, of "{}"] by simp
  have s: "\<not> includes_str (toLowerCase ''Rendered 0/0 frames'') ''error''"
    by (simp add: toLowerCase_def lower_char_def)
  have out: "render_outcome cfg_demo env_flood_nofile req_intro {} =
      Inl (overflow_error env_flood_nofile ?pr)"
    by (simp add: render_outcome_eq rr within_buffer_def mb)
  note f = serve_failed [OF truthy_intro out]
  have body: "responses (serve cfg_demo env_flood_nofile req_intro {}) =
     [JsonResponse 500
        [(''message'', ''Video rendering failed.''),
         (''error'', ''stdout maxBuffer length exceeded'')]]"
    using f(1) by (simp add: overflow_error_def mb render_failed_body_def)
  from rr s f(4) body show ?thesis by blast
qed

end
